theory Spec2Isabelle
  imports Main
begin

section \<open>Values of the host and of the script engine\<close>

text \<open>
  The connector runtime of \<^verbatim>\<open>internal/source/source.go\<close>: loading a script, the
  describe, execute and parse phases of each operation, and the session headers.
\<close>

text \<open>
  Modelled from the spec: the declarations of \<^verbatim>\<open>Manga\<close>, \<^verbatim>\<open>Chapter\<close> and
  \<^verbatim>\<open>SourceResponse\<close> are not among the source files. The records carry the fields that
  \<^verbatim>\<open>source.go\<close> and \<^verbatim>\<open>repository.go\<close> read and write: the ID, the source name, the
  path of a manga (its identity key together with the source name), the manga a chapter
  belongs to; a response is its header set and its body.
\<close>

record Manga =
  Manga_ID :: nat
  Manga_Source :: string
  Manga_Path :: string

record Chapter =
  Chapter_ID :: nat
  Chapter_Source :: string
  Chapter_MangaID :: nat

text \<open>\<^verbatim>\<open>http.Header\<close> is \<^verbatim>\<open>map[string][]string\<close>.\<close>

type_synonym Header = "string \<rightharpoonup> string list"

record SourceResponse =
  Header :: Header
  Body :: string

text \<open>
  What a userdata handle wraps (\<^verbatim>\<open>ud.Value\<close>): a pointer to a record made by the
  script through a registered type, a record passed by value with \<^verbatim>\<open>luar.New(s.l, *m)\<close>,
  or one of the Go maps handed to \<^verbatim>\<open>login_request\<close> and \<^verbatim>\<open>login\<close>.
\<close>

datatype native =
    PtrManga Manga
  | PtrChapter Chapter
  | PtrPage
  | ValManga Manga
  | ValChapter Chapter
  | StringMap "string \<rightharpoonup> string"
  | HeaderMap Header

text \<open>
  \<^verbatim>\<open>lua.LValue\<close>. A table is the sequence of its entries in the order in which
  \<^verbatim>\<open>ForEach\<close> reaches them (array part by index, then the hash part in the order the
  Go map iteration happens to take). Numbers are the integral ones.
\<close>

datatype lvalue =
    LNil
  | LBool bool
  | LNumber int
  | LString string
  | LTable "(lvalue \<times> lvalue) list"
  | LUserData native
  | LFunction

text \<open>\<^verbatim>\<open>ForEach\<close> hands every entry whose value is not nil to the callback.\<close>

definition ForEach :: "(lvalue \<times> lvalue) list \<Rightarrow> (lvalue \<times> lvalue) list" where
  "ForEach tb = filter (\<lambda>kv. snd kv \<noteq> LNil) tb"

fun RawGetString :: "(lvalue \<times> lvalue) list \<Rightarrow> string \<Rightarrow> lvalue" where
  "RawGetString [] key = LNil"
| "RawGetString ((k, v) # tb) key = (if k = LString key then v else RawGetString tb key)"

definition decimal_digits :: string where
  "decimal_digits = ''0123456789''"

function showNat :: "nat \<Rightarrow> string" where
  "showNat n =
     (if n < 10 then [decimal_digits ! n]
      else showNat (n div 10) @ [decimal_digits ! (n mod 10)])"
  by pat_completeness auto
termination
  by (relation "measure (\<lambda>n. n)") auto

definition showInt :: "int \<Rightarrow> string" where
  "showInt i = (if i < 0 then CHR ''-'' # showNat (nat (- i)) else showNat (nat i))"

text \<open>
  \<^verbatim>\<open>LValue.String()\<close>. For a table, a userdata and a function the engine prints the
  kind followed by the address of the object; the address is left out here.
\<close>

fun lv_String :: "lvalue \<Rightarrow> string" where
  "lv_String LNil = ''nil''"
| "lv_String (LBool b) = (if b then ''true'' else ''false'')"
| "lv_String (LNumber n) = showInt n"
| "lv_String (LString s) = s"
| "lv_String (LTable tb) = ''table: 0x''"
| "lv_String (LUserData u) = ''userdata: 0x''"
| "lv_String LFunction = ''function: 0x''"

section \<open>Header names and the operations of \<^verbatim>\<open>http.Header\<close>\<close>

definition isLower :: "char \<Rightarrow> bool" where
  "isLower c = (let n = (of_char c :: nat) in 97 \<le> n \<and> n \<le> 122)"

definition isUpper :: "char \<Rightarrow> bool" where
  "isUpper c = (let n = (of_char c :: nat) in 65 \<le> n \<and> n \<le> 90)"

definition isDigit :: "char \<Rightarrow> bool" where
  "isDigit c = (let n = (of_char c :: nat) in 48 \<le> n \<and> n \<le> 57)"

text \<open>The token characters of RFC 7230: letters, digits and \<^verbatim>\<open>!#$%&'*+-.^_`|~\<close>.\<close>

definition isTokenChar :: "char \<Rightarrow> bool" where
  "isTokenChar c =
     (isLower c \<or> isUpper c \<or> isDigit c \<or>
      (of_char c :: nat) \<in> set [33, 35, 36, 37, 38, 39, 42, 43, 45, 46, 94, 95, 96, 124, 126])"

definition toUpper :: "char \<Rightarrow> char" where
  "toUpper c = char_of ((of_char c :: nat) - 32)"

definition toLower :: "char \<Rightarrow> char" where
  "toLower c = char_of ((of_char c :: nat) + 32)"

fun canonLoop :: "bool \<Rightarrow> string \<Rightarrow> string" where
  "canonLoop upper [] = []"
| "canonLoop upper (c # cs) =
     (let c' = (if upper \<and> isLower c then toUpper c
                else if \<not> upper \<and> isUpper c then toLower c
                else c)
      in c' # canonLoop (c' = CHR ''-'') cs)"

text \<open>
  \<^verbatim>\<open>textproto.CanonicalMIMEHeaderKey\<close>: a name made of token characters gets its
  first letter and every letter after a hyphen in upper case and the others in lower
  case; any other name is returned as it is.
\<close>

definition CanonicalMIMEHeaderKey :: "string \<Rightarrow> string" where
  "CanonicalMIMEHeaderKey s = (if list_all isTokenChar s then canonLoop True s else s)"

definition Header_Set :: "Header \<Rightarrow> string \<Rightarrow> string \<Rightarrow> Header" where
  "Header_Set h key v = h(CanonicalMIMEHeaderKey key \<mapsto> [v])"

definition Header_Add :: "Header \<Rightarrow> string \<Rightarrow> string \<Rightarrow> Header" where
  "Header_Add h key v =
     h(CanonicalMIMEHeaderKey key \<mapsto>
         (case h (CanonicalMIMEHeaderKey key) of None \<Rightarrow> [] | Some vs \<Rightarrow> vs) @ [v])"

definition Header_Del :: "Header \<Rightarrow> string \<Rightarrow> Header" where
  "Header_Del h key = h(CanonicalMIMEHeaderKey key := None)"

definition Header_Get :: "Header \<Rightarrow> string \<Rightarrow> string" where
  "Header_Get h key =
     (case h (CanonicalMIMEHeaderKey key) of
        None \<Rightarrow> ''''
      | Some [] \<Rightarrow> ''''
      | Some (v # vs) \<Rightarrow> v)"

definition Header_Values :: "Header \<Rightarrow> string \<Rightarrow> string list" where
  "Header_Values h key =
     (case h (CanonicalMIMEHeaderKey key) of None \<Rightarrow> [] | Some vs \<Rightarrow> vs)"

section \<open>The script engine as the host sees it\<close>

text \<open>
  A call of a script function either raises a fault or returns values; either way it may
  change the interpreter's own memory, of which the host knows nothing (\<open>'st\<close>).
\<close>

datatype 'st call_result =
    Raise string 'st
  | Return "lvalue list" 'st

text \<open>A global is a function of the script, or some other value (nil when undefined).\<close>

datatype 'st global =
    NotCallable lvalue
  | Callable "lvalue list \<Rightarrow> 'st \<Rightarrow> 'st call_result"

text \<open>\<^verbatim>\<open>lua.LState\<close>: the globals, the script's memory, and the value stack, bottom first.\<close>

record 'st LState =
  globals :: "string \<Rightarrow> 'st global"
  mem :: 'st
  stack :: "lvalue list"

text \<open>
  \<^verbatim>\<open>Source\<close>. The model covers a source with a live interpreter, as
  \<^verbatim>\<open>newSource\<close> makes it; \<open>header = None\<close> is the nil map that \<^verbatim>\<open>headerBuilder\<close>
  tests for.
\<close>

record 'st Source =
  Name :: string
  URL :: string
  l_state :: "'st LState"
  header :: "Header option"

datatype error =
    LuaApiError string
  | ErrorsNew string
  | NewRequestError string
  | ClientDoError string
  | ReadAllError string

text \<open>What a host function does: it returns a value, returns an error, or panics.\<close>

datatype 'a outcome =
    Ok 'a
  | Err error
  | Panic string

text \<open>\<^verbatim>\<open>s.l.Get(-1)\<close>: the top of the stack, nil when the stack is empty.\<close>

definition Get_top :: "lvalue list \<Rightarrow> lvalue" where
  "Get_top st = (if st = [] then LNil else last st)"

text \<open>\<^verbatim>\<open>s.l.Get(1)\<close>: the bottom of the stack, nil when the stack is empty.\<close>

definition Get_first :: "lvalue list \<Rightarrow> lvalue" where
  "Get_first st = (case st of [] \<Rightarrow> LNil | v # vs \<Rightarrow> v)"

text \<open>
  \<^verbatim>\<open>callLuaFunc\<close>: \<^verbatim>\<open>CallByParam\<close> with \<^verbatim>\<open>NRet: 1\<close> and \<^verbatim>\<open>Protect: true\<close>.
  A fault, also that of calling a value that is no function, comes back as an error and
  leaves the stack as it was; a return pushes exactly one value, the first one returned
  or nil.
\<close>

definition callLuaFunc ::
  "'st Source \<Rightarrow> string \<Rightarrow> lvalue list \<Rightarrow> error option \<times> 'st Source" where
  "callLuaFunc s name args =
     (case globals (l_state s) name of
        NotCallable v \<Rightarrow> (Some (LuaApiError ''attempt to call a non-function object''), s)
      | Callable f \<Rightarrow>
          (case f args (mem (l_state s)) of
             Raise e m \<Rightarrow> (Some (LuaApiError e), s\<lparr>l_state := (l_state s)\<lparr>mem := m\<rparr>\<rparr>)
           | Return vs m \<Rightarrow>
               (None, s\<lparr>l_state := (l_state s)
                  \<lparr>mem := m,
                   stack := stack (l_state s) @ [case vs of [] \<Rightarrow> LNil | v # ws \<Rightarrow> v]\<rparr>\<rparr>)))"

section \<open>Loading a source\<close>

text \<open>
  \<^verbatim>\<open>s.l.CheckString(1)\<close> reads the value at stack index 1. A string is taken as it
  is and a number is converted; for any other value the engine raises a type error, which
  outside a protected call is a panic of the host.
\<close>

definition CheckString_1 :: "lvalue list \<Rightarrow> string option" where
  "CheckString_1 st =
     (case Get_first st of
        LString str \<Rightarrow> Some str
      | LNumber n \<Rightarrow> Some (showInt n)
      | _ \<Rightarrow> None)"

definition Pop_1 :: "'st Source \<Rightarrow> 'st Source" where
  "Pop_1 s = s\<lparr>l_state := (l_state s)\<lparr>stack := butlast (stack (l_state s))\<rparr>\<rparr>"

definition getName :: "'st Source \<Rightarrow> unit outcome \<times> 'st Source" where
  "getName s =
     (case callLuaFunc s ''name'' [] of
        (Some e, s1) \<Rightarrow> (Err e, s1)
      | (None, s1) \<Rightarrow>
          (case CheckString_1 (stack (l_state s1)) of
             None \<Rightarrow> (Panic ''bad argument #1 (string expected)'', s1)
           | Some str \<Rightarrow> (Ok (), Pop_1 (s1\<lparr>Name := str\<rparr>))))"

definition getBaseURL :: "'st Source \<Rightarrow> unit outcome \<times> 'st Source" where
  "getBaseURL s =
     (case callLuaFunc s ''base_url'' [] of
        (Some e, s1) \<Rightarrow> (Err e, s1)
      | (None, s1) \<Rightarrow>
          (case CheckString_1 (stack (l_state s1)) of
             None \<Rightarrow> (Panic ''bad argument #1 (string expected)'', s1)
           | Some str \<Rightarrow> (Ok (), Pop_1 (s1\<lparr>URL := str\<rparr>))))"

text \<open>
  What \<^verbatim>\<open>s.l.DoFile(path)\<close> makes of the file at a path: an error (the file is
  missing, does not compile, or faults while it runs), or the globals and the memory the
  chunk leaves behind together with the values it returns, which \<^verbatim>\<open>DoFile\<close> leaves
  on the stack.
\<close>

datatype 'st chunk =
    ChunkError string
  | ChunkRuns "lvalue list" "string \<Rightarrow> 'st global" 'st

text \<open>
  An outbound request: what \<^verbatim>\<open>createRequest\<close> hands to the HTTP client. The buffer
  is empty, or holds the multipart encoding of the fields written, in the order written,
  under the writer's boundary; the bytes of that encoding are not spelled out.
\<close>

datatype body =
    EmptyBody
  | MultipartForm string "(string \<times> string) list"

record Request =
  req_Method :: string
  req_URL :: string
  req_Header :: Header
  req_Body :: body

text \<open>
  The world outside the package: the file system with the script engine's loader, the
  URL parser of \<^verbatim>\<open>net/url\<close> (its error, if any), the boundary the multipart writer
  draws, and the network: the round trip of a request the HTTP client accepts, with the
  reading of the response body.
\<close>

record 'st env =
  DoFile :: "string \<Rightarrow> 'st chunk"
  url_Parse :: "string \<Rightarrow> string option"
  randomBoundary :: string
  client_Do :: "Request \<Rightarrow> string + (Header \<times> (string + string))"

text \<open>
  \<^verbatim>\<open>newSource\<close>: a source with an interpreter and nothing else. The interpreter is
  given here as the file leaves it, since nothing reads it before \<^verbatim>\<open>DoFile\<close> has run.
\<close>

definition newSource :: "lvalue list \<Rightarrow> (string \<Rightarrow> 'st global) \<Rightarrow> 'st \<Rightarrow> 'st Source" where
  "newSource st g m =
     \<lparr>Name = [], URL = [],
      l_state = \<lparr>globals = g, mem = m, stack = st\<rparr>,
      header = None\<rparr>"

text \<open>
  \<^verbatim>\<open>LoadSourceFromPath\<close>. The second component tells whether \<^verbatim>\<open>s.l.Close()\<close>
  was called before returning.
\<close>

definition LoadSourceFromPath :: "'st env \<Rightarrow> string \<Rightarrow> 'st Source outcome \<times> bool" where
  "LoadSourceFromPath env path =
     (case DoFile env path of
        ChunkError e \<Rightarrow> (Err (LuaApiError e), False)
      | ChunkRuns rets g m \<Rightarrow>
          (let s = (newSource rets g m)\<lparr>header := Some Map.empty\<rparr> in
           case getName s of
             (Err e, s1) \<Rightarrow> (Err e, True)
           | (Panic msg, s1) \<Rightarrow> (Panic msg, False)
           | (Ok u, s1) \<Rightarrow>
               (case getBaseURL s1 of
                  (Err e, s2) \<Rightarrow> (Err e, True)
                | (Panic msg, s2) \<Rightarrow> (Panic msg, False)
                | (Ok u, s2) \<Rightarrow> (Ok s2, False))))"

section \<open>Building and performing a request\<close>

definition headerBuilder :: "'st Source \<Rightarrow> Header" where
  "headerBuilder s =
     Header_Set (case header s of Some h \<Rightarrow> h | None \<Rightarrow> Map.empty)
       ''User-Agent'' ''Tanoshi/0.1.0''"

text \<open>
  \<^verbatim>\<open>Writer.FormDataContentType\<close>; the boundary the writer draws is made of
  hexadecimal digits, which need no quoting.
\<close>

definition FormDataContentType :: "string \<Rightarrow> string" where
  "FormDataContentType b = ''multipart/form-data; boundary='' @ b"

definition validMethod :: "string \<Rightarrow> bool" where
  "validMethod m = (m \<noteq> [] \<and> list_all isTokenChar m)"

text \<open>
  \<^verbatim>\<open>http.NewRequest\<close>: an empty method stands for GET, a method that is not a token
  is refused, and so is a URL that \<^verbatim>\<open>url.Parse\<close> refuses.
\<close>

definition http_NewRequest :: "'st env \<Rightarrow> string \<Rightarrow> string \<Rightarrow> body \<Rightarrow> error + Request" where
  "http_NewRequest env method url buf =
     (let m = (if method = [] then ''GET'' else method) in
      if \<not> validMethod m then Inl (NewRequestError ''net/http: invalid method'')
      else (case url_Parse env url of
              Some e \<Rightarrow> Inl (NewRequestError e)
            | None \<Rightarrow>
                Inr \<lparr>req_Method = m, req_URL = url, req_Header = Map.empty, req_Body = buf\<rparr>))"

definition setHeaders :: "(lvalue \<times> lvalue) list \<Rightarrow> Header \<Rightarrow> Header" where
  "setHeaders headers h =
     fold (\<lambda>kv hm. Header_Set hm (lv_String (fst kv)) (lv_String (snd kv))) (ForEach headers) h"

definition writeFields :: "(lvalue \<times> lvalue) list \<Rightarrow> (string \<times> string) list" where
  "writeFields data = map (\<lambda>kv. (lv_String (fst kv), lv_String (snd kv))) (ForEach data)"

definition createRequest :: "'st env \<Rightarrow> 'st Source \<Rightarrow> Request outcome" where
  "createRequest env s =
     (case Get_top (stack (l_state s)) of
        LTable req \<Rightarrow>
          (let headerMap = headerBuilder s;
               headerMap1 = (case RawGetString req ''header'' of
                               LTable headers \<Rightarrow> setHeaders headers headerMap
                             | _ \<Rightarrow> headerMap);
               contentType = Header_Get headerMap1 ''Content-Type'';
               multipart = (case RawGetString req ''data'' of
                              LTable data \<Rightarrow>
                                if contentType = ''multipart/form-data'' then Some data else None
                            | _ \<Rightarrow> None);
               buffer = (case multipart of
                           Some data \<Rightarrow> MultipartForm (randomBoundary env) (writeFields data)
                         | None \<Rightarrow> EmptyBody);
               headerMap2 = (case multipart of
                               Some data \<Rightarrow>
                                 Header_Set headerMap1 ''Content-Type''
                                   (FormDataContentType (randomBoundary env))
                             | None \<Rightarrow> headerMap1);
               method = lv_String (RawGetString req ''method'');
               url = lv_String (RawGetString req ''url'')
           in case http_NewRequest env method url buffer of
                Inl e \<Rightarrow> Err e
              | Inr request \<Rightarrow> Ok (request\<lparr>req_Header := headerMap2\<rparr>))
      | _ \<Rightarrow> Err (ErrorsNew ''table expected''))"

text \<open>
  The scheme \<^verbatim>\<open>url.Parse\<close> gives a URL: the fragment is cut off at the first
  \<^verbatim>\<open>#\<close>, then \<^verbatim>\<open>getScheme\<close> reads letters, and after the first character also
  digits, \<^verbatim>\<open>+\<close>, \<^verbatim>\<open>-\<close> and \<^verbatim>\<open>.\<close>, up to a colon; without a colon, or with any
  other character before it, there is no scheme. (A colon in first place makes
  \<^verbatim>\<open>url.Parse\<close> fail; no scheme is given for it here.) The scheme is put in lower case.
\<close>

fun schemeLoop :: "bool \<Rightarrow> string \<Rightarrow> string \<Rightarrow> string" where
  "schemeLoop first acc [] = []"
| "schemeLoop first acc (c # cs) =
     (if isLower c \<or> isUpper c then schemeLoop False (acc @ [c]) cs
      else if isDigit c \<or> c = CHR ''+'' \<or> c = CHR ''-'' \<or> c = CHR ''.''
           then (if first then [] else schemeLoop False (acc @ [c]) cs)
      else if c = CHR '':'' then (if first then [] else acc)
      else [])"

definition getScheme :: "string \<Rightarrow> string" where
  "getScheme rawURL = schemeLoop True [] rawURL"

definition url_Scheme :: "string \<Rightarrow> string" where
  "url_Scheme rawURL =
     map (\<lambda>c. if isUpper c then toLower c else c)
       (getScheme (takeWhile (\<lambda>c. c \<noteq> CHR ''#'') rawURL))"

text \<open>
  \<^verbatim>\<open>s.httpClient.Do(req)\<close> with the client \<^verbatim>\<open>LoadSourceFromPath\<close> makes,
  \<^verbatim>\<open>&http.Client{}\<close>: its transport refuses a URL whose scheme is neither
  \<^verbatim>\<open>http\<close> nor \<^verbatim>\<open>https\<close> before it connects; for the others the round trip is
  the network's (\<open>client_Do\<close>). Of the checks the transport makes before connecting, this
  is the one kept here.
\<close>

definition http_Client_Do ::
  "'st env \<Rightarrow> Request \<Rightarrow> string + (Header \<times> (string + string))" where
  "http_Client_Do env req =
     (if url_Scheme (req_URL req) = ''http'' \<or> url_Scheme (req_URL req) = ''https''
      then client_Do env req
      else Inl ''unsupported protocol scheme'')"

definition doRequest :: "'st env \<Rightarrow> Request \<Rightarrow> SourceResponse outcome" where
  "doRequest env req =
     (case http_Client_Do env req of
        Inl e \<Rightarrow> Err (ClientDoError e)
      | Inr (hdr, Inl e) \<Rightarrow> Err (ReadAllError e)
      | Inr (hdr, Inr b) \<Rightarrow> Ok \<lparr>Header = hdr, Body = b\<rparr>)"

text \<open>
  The tail every \<^verbatim>\<open>...Request\<close> function shares after its call into the script:
  \<^verbatim>\<open>createRequest\<close>, then \<^verbatim>\<open>doRequest\<close>, each error returned at once.
\<close>

definition createAndDo :: "'st env \<Rightarrow> 'st Source \<Rightarrow> SourceResponse outcome" where
  "createAndDo env s =
     (case createRequest env s of
        Err e \<Rightarrow> Err e
      | Panic msg \<Rightarrow> Panic msg
      | Ok request \<Rightarrow> doRequest env request)"

definition describeAndFetch ::
  "'st env \<Rightarrow> 'st Source \<Rightarrow> string \<Rightarrow> lvalue list \<Rightarrow> SourceResponse outcome \<times> 'st Source" where
  "describeAndFetch env s name args =
     (case callLuaFunc s name args of
        (Some e, s1) \<Rightarrow> (Err e, s1)
      | (None, s1) \<Rightarrow> (createAndDo env s1, s1))"

section \<open>The operations\<close>

definition getLatestUpdatesRequest ::
  "'st env \<Rightarrow> 'st Source \<Rightarrow> int \<Rightarrow> SourceResponse outcome \<times> 'st Source" where
  "getLatestUpdatesRequest env s page =
     describeAndFetch env s ''get_latest_updates_request'' [LNumber page]"

text \<open>The two type assertions of the list results: a userdata that wraps a record pointer.\<close>

fun asManga :: "lvalue \<Rightarrow> Manga option" where
  "asManga (LUserData (PtrManga m)) = Some m"
| "asManga v = None"

fun asChapter :: "lvalue \<Rightarrow> Chapter option" where
  "asChapter (LUserData (PtrChapter c)) = Some c"
| "asChapter v = None"

definition getLatestUpdates ::
  "'st Source \<Rightarrow> string \<Rightarrow> Manga list outcome \<times> 'st Source" where
  "getLatestUpdates s body =
     (case callLuaFunc s ''get_latest_updates'' [LString body] of
        (Some e, s1) \<Rightarrow> (Err e, s1)
      | (None, s1) \<Rightarrow>
          (case Get_top (stack (l_state s1)) of
             LTable tbl \<Rightarrow>
               (Ok (map (\<lambda>m. m\<lparr>Manga_Source := Name s1\<rparr>)
                      (List.map_filter (\<lambda>kv. asManga (snd kv)) (ForEach tbl))), s1)
           | _ \<Rightarrow> (Ok [], s1)))"

definition GetLatestUpdates ::
  "'st env \<Rightarrow> 'st Source \<Rightarrow> int \<Rightarrow> Manga list outcome \<times> 'st Source" where
  "GetLatestUpdates env s page =
     (case getLatestUpdatesRequest env s page of
        (Err e, s1) \<Rightarrow> (Err e, s1)
      | (Panic msg, s1) \<Rightarrow> (Panic msg, s1)
      | (Ok res, s1) \<Rightarrow> getLatestUpdates s1 (Body res))"

definition getMangaDetailsRequest ::
  "'st env \<Rightarrow> 'st Source \<Rightarrow> Manga \<Rightarrow> SourceResponse outcome \<times> 'st Source" where
  "getMangaDetailsRequest env s m =
     describeAndFetch env s ''get_manga_details_request'' [LUserData (ValManga m)]"

text \<open>
  \<^verbatim>\<open>getMangaDetails\<close> asserts the type of the result without the two-value form:
  \<^verbatim>\<open>lv.(*lua.LUserData)\<close> and \<^verbatim>\<open>ud.Value.(*Manga)\<close> panic on any other value.
\<close>

definition getMangaDetails ::
  "'st Source \<Rightarrow> string \<Rightarrow> Manga outcome \<times> 'st Source" where
  "getMangaDetails s body =
     (case callLuaFunc s ''get_manga_details'' [LString body] of
        (Some e, s1) \<Rightarrow> (Err e, s1)
      | (None, s1) \<Rightarrow>
          (case Get_top (stack (l_state s1)) of
             LUserData ud \<Rightarrow>
               (case ud of
                  PtrManga manga \<Rightarrow> (Ok (manga\<lparr>Manga_Source := Name s1\<rparr>), s1)
                | _ \<Rightarrow> (Panic ''interface conversion: interface {} is not *source.Manga'', s1))
           | _ \<Rightarrow> (Panic ''interface conversion: lua.LValue is not *lua.LUserData'', s1)))"

definition GetMangaDetails ::
  "'st env \<Rightarrow> 'st Source \<Rightarrow> Manga \<Rightarrow> Manga outcome \<times> 'st Source" where
  "GetMangaDetails env s m =
     (case getMangaDetailsRequest env s m of
        (Err e, s1) \<Rightarrow> (Err e, s1)
      | (Panic msg, s1) \<Rightarrow> (Panic msg, s1)
      | (Ok res, s1) \<Rightarrow>
          (case getMangaDetails s1 (Body res) of
             (Err e, s2) \<Rightarrow> (Err e, s2)
           | (Panic msg, s2) \<Rightarrow> (Panic msg, s2)
           | (Ok manga, s2) \<Rightarrow> (Ok (manga\<lparr>Manga_ID := Manga_ID m\<rparr>), s2)))"

definition getChaptersRequest ::
  "'st env \<Rightarrow> 'st Source \<Rightarrow> Manga \<Rightarrow> SourceResponse outcome \<times> 'st Source" where
  "getChaptersRequest env s m =
     describeAndFetch env s ''get_chapters_request'' [LUserData (ValManga m)]"

definition getChapters ::
  "'st Source \<Rightarrow> string \<Rightarrow> Chapter list outcome \<times> 'st Source" where
  "getChapters s body =
     (case callLuaFunc s ''get_chapters'' [LString body] of
        (Some e, s1) \<Rightarrow> (Err e, s1)
      | (None, s1) \<Rightarrow>
          (case Get_top (stack (l_state s1)) of
             LTable tbl \<Rightarrow>
               (Ok (map (\<lambda>c. c\<lparr>Chapter_Source := Name s1\<rparr>)
                      (List.map_filter (\<lambda>kv. asChapter (snd kv)) (ForEach tbl))), s1)
           | _ \<Rightarrow> (Ok [], s1)))"

definition GetChapters ::
  "'st env \<Rightarrow> 'st Source \<Rightarrow> Manga \<Rightarrow> Chapter list outcome \<times> 'st Source" where
  "GetChapters env s m =
     (case getChaptersRequest env s m of
        (Err e, s1) \<Rightarrow> (Err e, s1)
      | (Panic msg, s1) \<Rightarrow> (Panic msg, s1)
      | (Ok res, s1) \<Rightarrow> getChapters s1 (Body res))"

definition getChapterRequest ::
  "'st env \<Rightarrow> 'st Source \<Rightarrow> Chapter \<Rightarrow> SourceResponse outcome \<times> 'st Source" where
  "getChapterRequest env s c =
     describeAndFetch env s ''get_chapter_request'' [LUserData (ValChapter c)]"

definition getChapter ::
  "'st Source \<Rightarrow> string \<Rightarrow> Chapter outcome \<times> 'st Source" where
  "getChapter s body =
     (case callLuaFunc s ''get_chapter'' [LString body] of
        (Some e, s1) \<Rightarrow> (Err e, s1)
      | (None, s1) \<Rightarrow>
          (case Get_top (stack (l_state s1)) of
             LUserData ud \<Rightarrow>
               (case ud of
                  PtrChapter chapter \<Rightarrow> (Ok chapter, s1)
                | _ \<Rightarrow> (Panic ''interface conversion: interface {} is not *source.Chapter'', s1))
           | _ \<Rightarrow> (Panic ''interface conversion: lua.LValue is not *lua.LUserData'', s1)))"

definition GetChapter ::
  "'st env \<Rightarrow> 'st Source \<Rightarrow> Chapter \<Rightarrow> Chapter outcome \<times> 'st Source" where
  "GetChapter env s c =
     (case getChapterRequest env s c of
        (Err e, s1) \<Rightarrow> (Err e, s1)
      | (Panic msg, s1) \<Rightarrow> (Panic msg, s1)
      | (Ok res, s1) \<Rightarrow>
          (case getChapter s1 (Body res) of
             (Err e, s2) \<Rightarrow> (Err e, s2)
           | (Panic msg, s2) \<Rightarrow> (Panic msg, s2)
           | (Ok chapter, s2) \<Rightarrow> (Ok (chapter\<lparr>Chapter_ID := Chapter_ID c\<rparr>), s2)))"

definition loginParam :: "string \<Rightarrow> string \<Rightarrow> string \<Rightarrow> bool \<Rightarrow> (string \<rightharpoonup> string)" where
  "loginParam username password twoFactor remember =
     [''username'' \<mapsto> username,
      ''password'' \<mapsto> password,
      ''two_factor'' \<mapsto> twoFactor,
      ''remember_me'' \<mapsto> ''1'']"

definition loginRequest ::
  "'st env \<Rightarrow> 'st Source \<Rightarrow> string \<Rightarrow> string \<Rightarrow> string \<Rightarrow> bool
     \<Rightarrow> SourceResponse outcome \<times> 'st Source" where
  "loginRequest env s username password twoFactor remember =
     describeAndFetch env s ''login_request''
       [LUserData (StringMap (loginParam username password twoFactor remember))]"

text \<open>
  \<^verbatim>\<open>s.header.Del\<close> on a nil map does nothing; \<^verbatim>\<open>s.header.Add\<close> on a nil map is an
  assignment to an entry of a nil map, which panics.
\<close>

definition sessionDel :: "Header option \<Rightarrow> string \<Rightarrow> Header option" where
  "sessionDel ho key = map_option (\<lambda>h. Header_Del h key) ho"

fun sessionAddAll :: "Header option \<Rightarrow> string \<Rightarrow> lvalue list \<Rightarrow> Header option outcome" where
  "sessionAddAll ho key [] = Ok ho"
| "sessionAddAll ho key (w # ws) =
     (case ho of
        None \<Rightarrow> Panic ''assignment to entry in nil map''
      | Some h \<Rightarrow> sessionAddAll (Some (Header_Add h key (lv_String w))) key ws)"

text \<open>The outer loop of \<^verbatim>\<open>login\<close> over the entries of the result table.\<close>

fun loginEntries :: "Header option \<Rightarrow> (lvalue \<times> lvalue) list \<Rightarrow> Header option outcome" where
  "loginEntries ho [] = Ok ho"
| "loginEntries ho ((k, v) # rest) =
     (case v of
        LTable values \<Rightarrow>
          (case sessionAddAll (sessionDel ho (lv_String k)) (lv_String k)
                  (map snd (ForEach values)) of
             Ok ho' \<Rightarrow> loginEntries ho' rest
           | Err e \<Rightarrow> Err e
           | Panic msg \<Rightarrow> Panic msg)
      | _ \<Rightarrow> loginEntries ho rest)"

definition login :: "'st Source \<Rightarrow> SourceResponse \<Rightarrow> unit outcome \<times> 'st Source" where
  "login s resp =
     (case callLuaFunc s ''login'' [LUserData (HeaderMap (Header resp)), LString (Body resp)] of
        (Some e, s1) \<Rightarrow> (Err e, s1)
      | (None, s1) \<Rightarrow>
          (case Get_top (stack (l_state s1)) of
             LTable tbl \<Rightarrow>
               (case loginEntries (header s1) (ForEach tbl) of
                  Ok ho \<Rightarrow> (Ok (), s1\<lparr>header := ho\<rparr>)
                | Err e \<Rightarrow> (Err e, s1)
                | Panic msg \<Rightarrow> (Panic msg, s1))
           | _ \<Rightarrow> (Err (ErrorsNew ''Table expected''), s1)))"

definition Login ::
  "'st env \<Rightarrow> 'st Source \<Rightarrow> string \<Rightarrow> string \<Rightarrow> string \<Rightarrow> bool
     \<Rightarrow> unit outcome \<times> 'st Source" where
  "Login env s username password twoFactor remember =
     (case loginRequest env s username password twoFactor remember of
        (Err e, s1) \<Rightarrow> (Err e, s1)
      | (Panic msg, s1) \<Rightarrow> (Panic msg, s1)
      | (Ok resp, s1) \<Rightarrow> login s1 resp)"

text \<open>
  \<^verbatim>\<open>Filters.ToLTable\<close> is declared elsewhere; the operation takes the table it
  gives.
\<close>

definition fetchMangaRequest ::
  "'st env \<Rightarrow> 'st Source \<Rightarrow> (lvalue \<times> lvalue) list \<Rightarrow> SourceResponse outcome \<times> 'st Source" where
  "fetchMangaRequest env s filter_tbl =
     describeAndFetch env s ''fetch_manga_request'' [LTable filter_tbl]"

definition fetchManga ::
  "'st Source \<Rightarrow> string \<Rightarrow> Manga list outcome \<times> 'st Source" where
  "fetchManga s body =
     (case callLuaFunc s ''fetch_manga'' [LString body] of
        (Some e, s1) \<Rightarrow> (Err e, s1)
      | (None, s1) \<Rightarrow>
          (case Get_top (stack (l_state s1)) of
             LTable tbl \<Rightarrow> (Ok (List.map_filter (\<lambda>kv. asManga (snd kv)) (ForEach tbl)), s1)
           | _ \<Rightarrow> (Ok [], s1)))"

definition FetchManga ::
  "'st env \<Rightarrow> 'st Source \<Rightarrow> (lvalue \<times> lvalue) list \<Rightarrow> Manga list outcome \<times> 'st Source" where
  "FetchManga env s filter_tbl =
     (case fetchMangaRequest env s filter_tbl of
        (Err e, s1) \<Rightarrow> (Err e, s1)
      | (Panic msg, s1) \<Rightarrow> (Panic msg, s1)
      | (Ok res, s1) \<Rightarrow> fetchManga s1 (Body res))"

section \<open>What a call into the script gives\<close>

text \<open>
  The value a protected call with one result leaves on the stack: the first value the
  function returns, nil when it returns none; \<open>None\<close> when the call faults (the global
  is no function, or the function raises).
\<close>

definition entryResult :: "'st Source \<Rightarrow> string \<Rightarrow> lvalue list \<Rightarrow> lvalue option" where
  "entryResult s name args =
     (case globals (l_state s) name of
        NotCallable v \<Rightarrow> None
      | Callable f \<Rightarrow>
          (case f args (mem (l_state s)) of
             Raise e m \<Rightarrow> None
           | Return vs m \<Rightarrow> Some (case vs of [] \<Rightarrow> LNil | v # ws \<Rightarrow> v)))"

definition entryFaults :: "'st Source \<Rightarrow> string \<Rightarrow> lvalue list \<Rightarrow> bool" where
  "entryFaults s name args = (entryResult s name args = None)"

text \<open>Sources and surroundings for the examples.\<close>

definition constGlobals :: "(string \<times> lvalue) list \<Rightarrow> string \<Rightarrow> unit global" where
  "constGlobals tbl name =
     (case map_of tbl name of
        None \<Rightarrow> NotCallable LNil
      | Some v \<Rightarrow> Callable (\<lambda>args m. Return [v] m))"

definition exampleSource :: "(string \<times> lvalue) list \<Rightarrow> Header option \<Rightarrow> unit Source" where
  "exampleSource tbl ho =
     \<lparr>Name = ''example'', URL = ''http://example.com'',
      l_state = \<lparr>globals = constGlobals tbl, mem = (), stack = []\<rparr>,
      header = ho\<rparr>"

text \<open>
  \<^verbatim>\<open>url.Parse\<close> on the two shapes of URL the examples use, both of which it parses
  without error: \<^verbatim>\<open>http://\<close> followed by letters, digits, dots, hyphens and
  slashes, and a bare word of letters. Every other string is refused here; no example
  reaches one.
\<close>

definition urlSafeChar :: "char \<Rightarrow> bool" where
  "urlSafeChar c = (isLower c \<or> isUpper c \<or> isDigit c \<or> c \<in> set ''./-'')"

definition url_Parse_examples :: "string \<Rightarrow> string option" where
  "url_Parse_examples u =
     (if take 7 u = ''http://'' \<and> list_all urlSafeChar (drop 7 u) then None
      else if u \<noteq> [] \<and> list_all (\<lambda>c. isLower c \<or> isUpper c) u then None
      else Some ''parse error'')"

text \<open>
  The surroundings of the examples: the file at every path is the given chunk, and the
  HTTP client answers every \<^verbatim>\<open>http://\<close> request with an empty header set and the given
  body, and fails on any other URL.
\<close>

definition exampleEnv :: "unit chunk \<Rightarrow> string \<Rightarrow> unit env" where
  "exampleEnv ch b =
     \<lparr>DoFile = (\<lambda>p. ch),
      url_Parse = url_Parse_examples,
      randomBoundary = ''6b1f0c2d9e3a4b5c6d7e8f901a2b3c4d5e6f708192a3b4c5d6e7f8091a2b'',
      client_Do = (\<lambda>r. if take 7 (req_URL r) = ''http://'' then Inr (Map.empty, Inr b)
                       else Inl ''unsupported protocol scheme'')\<rparr>"

text \<open>A descriptor for a GET of a URL, and the scripts and tables of the examples.\<close>

definition getDescriptor :: "string \<Rightarrow> lvalue" where
  "getDescriptor u = LTable [(LString ''method'', LString ''GET''), (LString ''url'', LString u)]"

definition plainTableSource :: "unit Source" where
  "plainTableSource = exampleSource
     [(''get_manga_details_request'', getDescriptor ''http://example.com/manga/1''),
      (''get_manga_details'', LTable []),
      (''get_chapter_request'', getDescriptor ''http://example.com/chapter/1''),
      (''get_chapter'', LString ''chapter 1'')] (Some Map.empty)"

definition wrongHandleSource :: "unit Source" where
  "wrongHandleSource = exampleSource
     [(''get_manga_details'', LUserData PtrPage),
      (''get_chapter'', LNil)] (Some Map.empty)"

definition chapterSource :: "unit Source" where
  "chapterSource = exampleSource
     [(''get_chapter_request'', getDescriptor ''http://example.com/chapter/42''),
      (''get_chapter'', LUserData (PtrChapter
          \<lparr>Chapter_ID = 7, Chapter_Source = ''elsewhere'', Chapter_MangaID = 3\<rparr>))]
     (Some Map.empty)"

definition mixedTable :: "(lvalue \<times> lvalue) list" where
  "mixedTable =
     [(LNumber 1, LUserData (PtrManga \<lparr>Manga_ID = 0, Manga_Source = [], Manga_Path = ''/a''\<rparr>)),
      (LNumber 2, LString ''not a record''),
      (LNumber 3, LUserData (PtrManga \<lparr>Manga_ID = 0, Manga_Source = ''x'', Manga_Path = ''/b''\<rparr>)),
      (LNumber 4, LTable []),
      (LNumber 5, LUserData (PtrManga \<lparr>Manga_ID = 0, Manga_Source = [], Manga_Path = ''/c''\<rparr>))]"

definition mixedChapterTable :: "(lvalue \<times> lvalue) list" where
  "mixedChapterTable =
     [(LNumber 1, LUserData (PtrChapter \<lparr>Chapter_ID = 0, Chapter_Source = [], Chapter_MangaID = 1\<rparr>)),
      (LNumber 2, LUserData (PtrManga \<lparr>Manga_ID = 0, Manga_Source = [], Manga_Path = ''/a''\<rparr>)),
      (LNumber 3, LBool True),
      (LNumber 4, LUserData (PtrChapter \<lparr>Chapter_ID = 0, Chapter_Source = [], Chapter_MangaID = 2\<rparr>)),
      (LNumber 5, LUserData (PtrChapter \<lparr>Chapter_ID = 0, Chapter_Source = [], Chapter_MangaID = 3\<rparr>))]"

definition listSource :: "unit Source" where
  "listSource = exampleSource
     [(''get_latest_updates'', LTable mixedTable),
      (''get_chapters'', LTable mixedChapterTable),
      (''fetch_manga'', LTable mixedTable)] (Some Map.empty)"

text \<open>The host function returned the error of the script engine.\<close>

definition returnsLuaError :: "'a outcome \<times> 'st Source \<Rightarrow> bool" where
  "returnsLuaError r = (case fst r of Err (LuaApiError e) \<Rightarrow> True | _ \<Rightarrow> False)"

definition faultingSource :: "unit Source" where
  "faultingSource =
     \<lparr>Name = ''example'', URL = ''http://example.com'',
      l_state = \<lparr>globals = (\<lambda>n. Callable (\<lambda>args m. Raise ''attempt to index a nil value'' m)),
                 mem = (), stack = []\<rparr>,
      header = Some Map.empty\<rparr>"

definition requestNames :: "string list" where
  "requestNames = [''get_latest_updates_request'', ''get_manga_details_request'',
     ''get_chapters_request'', ''get_chapter_request'', ''login_request'',
     ''fetch_manga_request'']"

definition parseFaultSource :: "unit Source" where
  "parseFaultSource =
     \<lparr>Name = ''example'', URL = ''http://example.com'',
      l_state = \<lparr>globals = (\<lambda>n. if n \<in> set requestNames
                                 then Callable (\<lambda>args m. Return [getDescriptor ''http://example.com/x''] m)
                                 else Callable (\<lambda>args m. Raise ''attempt to compare number with nil'' m)),
                 mem = (), stack = []\<rparr>,
      header = Some Map.empty\<rparr>"

definition exManga :: Manga where
  "exManga = \<lparr>Manga_ID = 1, Manga_Source = ''example'', Manga_Path = ''/manga/1''\<rparr>"

definition exChapter :: Chapter where
  "exChapter = \<lparr>Chapter_ID = 42, Chapter_Source = ''example'', Chapter_MangaID = 1\<rparr>"

definition exResponse :: SourceResponse where
  "exResponse = \<lparr>Header = Map.empty, Body = ''<html>''\<rparr>"

definition emptyNameChunk :: "unit chunk" where
  "emptyNameChunk =
     ChunkRuns [] (constGlobals [(''name'', LString []), (''base_url'', LString ''http://example.com'')]) ()"

definition goodChunk :: "unit chunk" where
  "goodChunk =
     ChunkRuns [] (constGlobals [(''name'', LString ''example''), (''base_url'', LString ''http://example.com'')]) ()"

definition noBaseURLChunk :: "unit chunk" where
  "noBaseURLChunk = ChunkRuns [] (constGlobals [(''name'', LString ''example'')]) ()"

definition noNameChunk :: "unit chunk" where
  "noNameChunk = ChunkRuns [] (constGlobals [(''base_url'', LString ''http://example.com'')]) ()"

text \<open>The source \<^verbatim>\<open>LoadSourceFromPath\<close> starts from once the file has run.\<close>

definition loadedSource :: "lvalue list \<Rightarrow> (string \<Rightarrow> 'st global) \<Rightarrow> 'st \<Rightarrow> 'st Source" where
  "loadedSource rets g m = (newSource rets g m)\<lparr>header := Some Map.empty\<rparr>"

definition goodLoaded :: "unit Source" where
  "goodLoaded =
     \<lparr>Name = ''example'', URL = ''http://example.com'',
      l_state = \<lparr>globals = constGlobals [(''name'', LString ''example''),
                                           (''base_url'', LString ''http://example.com'')],
                 mem = (), stack = []\<rparr>,
      header = Some Map.empty\<rparr>"

text \<open>
  Names for what \<^verbatim>\<open>createRequest\<close> computes on the way: the session headers as
  \<^verbatim>\<open>headerBuilder\<close> reads them (a nil map reads as empty), the entries of the
  descriptor's \<^verbatim>\<open>header\<close> table that \<^verbatim>\<open>ForEach\<close> visits (none when the field is not
  a table), the header map after the descriptor's entries are set, and the test that
  selects the multipart encoding.
\<close>

definition sessionHeaders :: "'st Source \<Rightarrow> Header" where
  "sessionHeaders s = (case header s of Some h \<Rightarrow> h | None \<Rightarrow> Map.empty)"

definition descriptorHeaders :: "(lvalue \<times> lvalue) list \<Rightarrow> (lvalue \<times> lvalue) list" where
  "descriptorHeaders req =
     (case RawGetString req ''header'' of LTable headers \<Rightarrow> ForEach headers | _ \<Rightarrow> [])"

definition mergedHeaders :: "'st Source \<Rightarrow> (lvalue \<times> lvalue) list \<Rightarrow> Header" where
  "mergedHeaders s req =
     fold (\<lambda>kv hm. Header_Set hm (lv_String (fst kv)) (lv_String (snd kv)))
       (descriptorHeaders req) (headerBuilder s)"

fun isTable :: "lvalue \<Rightarrow> bool" where
  "isTable (LTable tb) = True"
| "isTable v = False"

definition encodesMultipart :: "'st Source \<Rightarrow> (lvalue \<times> lvalue) list \<Rightarrow> bool" where
  "encodesMultipart s req =
     (isTable (RawGetString req ''data'')
      \<and> Header_Get (mergedHeaders s req) ''Content-Type'' = ''multipart/form-data'')"

text \<open>
  The value of the last entry visited whose name has the canonical form \<open>N\<close>, if there is
  one: what a run of \<^verbatim>\<open>Set\<close> calls leaves under \<open>N\<close>.
\<close>

fun lastSet :: "string \<Rightarrow> (lvalue \<times> lvalue) list \<Rightarrow> lvalue option" where
  "lastSet N [] = None"
| "lastSet N ((k, v) # es) =
     (case lastSet N es of
        Some w \<Rightarrow> Some w
      | None \<Rightarrow> if CanonicalMIMEHeaderKey (lv_String k) = N then Some v else None)"

text \<open>
  The same for the result of \<^verbatim>\<open>login\<close>, where only entries whose value is a table count:
  the values of the last such entry whose name has the canonical form \<open>N\<close>, as strings.
\<close>

fun lastList :: "string \<Rightarrow> (lvalue \<times> lvalue) list \<Rightarrow> string list option" where
  "lastList N [] = None"
| "lastList N ((k, v) # es) =
     (case lastList N es of
        Some ws \<Rightarrow> Some ws
      | None \<Rightarrow>
          (case v of
             LTable values \<Rightarrow>
               if CanonicalMIMEHeaderKey (lv_String k) = N
               then Some (map (\<lambda>iw. lv_String (snd iw)) (ForEach values))
               else None
           | _ \<Rightarrow> None))"

text \<open>The canonical names of the entries of a \<^verbatim>\<open>login\<close> result whose value is a table.\<close>

definition mentionedNames :: "(lvalue \<times> lvalue) list \<Rightarrow> string set" where
  "mentionedNames tbl =
     set (map (\<lambda>kv. CanonicalMIMEHeaderKey (lv_String (fst kv)))
            (filter (\<lambda>kv. isTable (snd kv)) (ForEach tbl)))"

text \<open>The source once its \<^verbatim>\<open>get_latest_updates_request\<close> has been called for page 1.\<close>

definition afterDescribe :: "unit Source \<Rightarrow> unit Source" where
  "afterDescribe s = snd (callLuaFunc s ''get_latest_updates_request'' [LNumber 1])"

definition precedenceDescriptor :: "(lvalue \<times> lvalue) list" where
  "precedenceDescriptor =
     [(LString ''method'', LString ''GET''),
      (LString ''url'', LString ''http://example.com/latest''),
      (LString ''header'', LTable [(LString ''accept'', LString ''application/json'')])]"

definition precedenceSource :: "unit Source" where
  "precedenceSource = exampleSource
     [(''get_latest_updates_request'', LTable precedenceDescriptor)]
     (Some [''User-Agent'' \<mapsto> [''Mozilla/5.0''],
            ''Accept'' \<mapsto> [''text/html''],
            ''Cookie'' \<mapsto> [''sid=1'']])"

definition sessionAgentSource :: "unit Source" where
  "sessionAgentSource = exampleSource
     [(''get_latest_updates_request'', getDescriptor ''http://example.com/latest'')]
     (Some [''User-Agent'' \<mapsto> [''Mozilla/5.0'']])"

definition multipartDescriptor :: "(lvalue \<times> lvalue) list" where
  "multipartDescriptor =
     [(LString ''method'', LString ''POST''),
      (LString ''url'', LString ''http://example.com/login''),
      (LString ''header'', LTable [(LString ''Content-Type'', LString ''multipart/form-data'')]),
      (LString ''data'', LTable [(LString ''user'', LString ''u'')])]"

definition multipartSource :: "unit Source" where
  "multipartSource = exampleSource
     [(''get_latest_updates_request'', LTable multipartDescriptor)] (Some Map.empty)"

definition twoSpellingsDescriptor :: "(lvalue \<times> lvalue) list" where
  "twoSpellingsDescriptor =
     [(LString ''method'', LString ''GET''),
      (LString ''url'', LString ''http://example.com/latest''),
      (LString ''header'', LTable [(LString ''accept'', LString ''text/html''),
                                  (LString ''Accept'', LString ''application/json'')])]"

definition twoSpellingsSource :: "unit Source" where
  "twoSpellingsSource = exampleSource
     [(''get_latest_updates_request'', LTable twoSpellingsDescriptor)] (Some Map.empty)"

definition noMethodSource :: "unit Source" where
  "noMethodSource = exampleSource
     [(''get_latest_updates_request'',
       LTable [(LString ''url'', LString ''http://example.com/latest'')])] (Some Map.empty)"

definition notTableSource :: "unit Source" where
  "notTableSource = exampleSource
     [(''get_latest_updates_request'', LString ''http://example.com/latest'')] (Some Map.empty)"

definition overrideDescriptor :: "(lvalue \<times> lvalue) list" where
  "overrideDescriptor =
     [(LString ''method'', LString ''GET''),
      (LString ''url'', LString ''http://example.com/latest''),
      (LString ''header'', LTable [(LString ''user-agent'', LString ''Custom/1.0''),
                                  (LString ''accept'', LString ''application/json'')])]"

definition overrideSource :: "unit Source" where
  "overrideSource = exampleSource
     [(''get_latest_updates_request'', LTable overrideDescriptor)]
     (Some [''User-Agent'' \<mapsto> [''Mozilla/5.0''], ''Accept'' \<mapsto> [''text/html'']])"

definition noUrlSource :: "unit Source" where
  "noUrlSource = exampleSource
     [(''get_latest_updates_request'', LTable [(LString ''method'', LString ''GET'')])]
     (Some Map.empty)"

definition loginResult :: "(lvalue \<times> lvalue) list" where
  "loginResult =
     [(LString ''cookie'', LTable [(LNumber 1, LString ''sid=2''), (LNumber 2, LString ''theme=dark'')]),
      (LString ''X-Token'', LTable [(LNumber 1, LString ''t1'')]),
      (LString ''note'', LString ''not a list'')]"

definition loginSource :: "unit Source" where
  "loginSource = exampleSource [(''login'', LTable loginResult)]
     (Some [''Cookie'' \<mapsto> [''sid=1''], ''Accept'' \<mapsto> [''text/html''], ''X-Token'' \<mapsto> [''t0'']])"

definition twoSpellingsLogin :: "unit Source" where
  "twoSpellingsLogin = exampleSource
     [(''login'', LTable [(LString ''cookie'', LTable [(LNumber 1, LString ''a'')]),
                          (LString ''Cookie'', LTable [(LNumber 1, LString ''b'')])])]
     (Some Map.empty)"

definition twoSpellingsLoginRev :: "unit Source" where
  "twoSpellingsLoginRev = exampleSource
     [(''login'', LTable [(LString ''Cookie'', LTable [(LNumber 1, LString ''b'')]),
                          (LString ''cookie'', LTable [(LNumber 1, LString ''a'')])])]
     (Some Map.empty)"

section \<open>Facts about the protected call\<close>

lemma callLuaFunc_returns:
  assumes "entryResult s name args = Some v"
  shows "\<exists>s1. callLuaFunc s name args = (None, s1) \<and> Get_top (stack (l_state s1)) = v
           \<and> Name s1 = Name s \<and> URL s1 = URL s \<and> header s1 = header s
           \<and> globals (l_state s1) = globals (l_state s)"
  using assms
  by (auto simp: entryResult_def callLuaFunc_def Get_top_def
           split: global.splits call_result.splits)

lemma callLuaFunc_raises:
  assumes "entryFaults s name args"
  shows "\<exists>e s1. callLuaFunc s name args = (Some (LuaApiError e), s1)"
  using assms
  by (auto simp: entryFaults_def entryResult_def callLuaFunc_def
           split: global.splits call_result.splits)

lemma callLuaFunc_None:
  assumes "callLuaFunc s name args = (None, s1)"
  shows "entryResult s name args = Some (Get_top (stack (l_state s1)))
         \<and> Name s1 = Name s \<and> URL s1 = URL s \<and> header s1 = header s"
  using assms
  by (auto simp: entryResult_def callLuaFunc_def Get_top_def
           split: global.splits call_result.splits)

lemma callLuaFunc_Some:
  assumes "callLuaFunc s name args = (Some e, s1)"
  shows "entryFaults s name args \<and> (\<exists>msg. e = LuaApiError msg)
         \<and> stack (l_state s1) = stack (l_state s) \<and> header s1 = header s"
  using assms
  by (auto simp: entryFaults_def entryResult_def callLuaFunc_def
           split: global.splits call_result.splits)

section \<open>The remember flag of Login\<close>

text \<open>
  C10. The \<open>remember\<close> flag of \<^verbatim>\<open>Login\<close> has no effect: the argument table handed to
  \<^verbatim>\<open>login_request\<close> carries \<^verbatim>\<open>remember_me = "1"\<close> whatever the flag, so the
  table, the request phase and the whole of \<^verbatim>\<open>Login\<close> are the same for
  \<open>remember = True\<close> and \<open>remember = False\<close>, for every user name, password and
  two-factor code.
\<close>

theorem Login_ignores_remember:
  "loginParam u p t r ''remember_me'' = Some ''1''
   \<and> loginParam u p t True = loginParam u p t False
   \<and> loginRequest env s u p t True = loginRequest env s u p t False
   \<and> Login env s u p t True = Login env s u p t False"
  by (simp add: loginParam_def loginRequest_def Login_def)

section \<open>Unfolding the model on concrete inputs\<close>

lemmas char_eval = char_of_def bit_Suc_0_iff isLower_def isUpper_def isDigit_def isTokenChar_def
  toUpper_def toLower_def urlSafeChar_def

lemmas header_eval = CanonicalMIMEHeaderKey_def Header_Set_def Header_Add_def Header_Del_def
  Header_Get_def Header_Values_def

lemmas engine_eval = ForEach_def Get_top_def Get_first_def callLuaFunc_def entryResult_def
  entryFaults_def constGlobals_def exampleSource_def exampleEnv_def url_Parse_examples_def
  getDescriptor_def

lemmas request_eval = headerBuilder_def FormDataContentType_def validMethod_def
  http_NewRequest_def setHeaders_def writeFields_def createRequest_def doRequest_def
  getScheme_def url_Scheme_def http_Client_Do_def
  createAndDo_def describeAndFetch_def

lemmas op_eval = getLatestUpdatesRequest_def getLatestUpdates_def GetLatestUpdates_def
  getMangaDetailsRequest_def getMangaDetails_def GetMangaDetails_def
  getChaptersRequest_def getChapters_def GetChapters_def
  getChapterRequest_def getChapter_def GetChapter_def
  loginParam_def loginRequest_def sessionDel_def login_def Login_def
  fetchMangaRequest_def fetchManga_def FetchManga_def

lemmas all_eval = char_eval header_eval engine_eval request_eval op_eval

section \<open>Singular parse results\<close>

text \<open>
  C3. The claim: when the result of \<^verbatim>\<open>get_manga_details\<close> or \<^verbatim>\<open>get_chapter\<close> does
  not unwrap to the expected record, the operation returns an error value and never a
  host-level fault. The code asserts the types without the two-value form, so on such a
  result it panics. Evaluated here: a script whose \<^verbatim>\<open>get_manga_details\<close> returns an
  empty table and whose \<^verbatim>\<open>get_chapter\<close> returns a string makes \<^verbatim>\<open>getMangaDetails\<close>,
  \<^verbatim>\<open>getChapter\<close>, \<^verbatim>\<open>GetMangaDetails\<close> and \<^verbatim>\<open>GetChapter\<close> panic; so does a handle of
  another type, and nil.
\<close>

theorem singular_parse_panics:
  "fst (getMangaDetails plainTableSource ''<html>'')
     = Panic ''interface conversion: lua.LValue is not *lua.LUserData''
   \<and> fst (getChapter plainTableSource ''<html>'')
     = Panic ''interface conversion: lua.LValue is not *lua.LUserData''
   \<and> fst (GetMangaDetails (exampleEnv (ChunkError ''unused'') ''<html>'') plainTableSource
            \<lparr>Manga_ID = 1, Manga_Source = ''example'', Manga_Path = ''/manga/1''\<rparr>)
     = Panic ''interface conversion: lua.LValue is not *lua.LUserData''
   \<and> fst (GetChapter (exampleEnv (ChunkError ''unused'') ''<html>'') plainTableSource
            \<lparr>Chapter_ID = 1, Chapter_Source = ''example'', Chapter_MangaID = 1\<rparr>)
     = Panic ''interface conversion: lua.LValue is not *lua.LUserData''
   \<and> fst (getMangaDetails wrongHandleSource ''<html>'')
     = Panic ''interface conversion: interface {} is not *source.Manga''
   \<and> fst (getChapter wrongHandleSource ''<html>'')
     = Panic ''interface conversion: lua.LValue is not *lua.LUserData''"
  unfolding plainTableSource_def wrongHandleSource_def
  by (simp add: all_eval)

section \<open>The identity of a chapter across GetChapter\<close>

lemma describeAndFetch_Ok:
  assumes "describeAndFetch env s name args = (Ok res, s1)"
  shows "callLuaFunc s name args = (None, s1) \<and> createAndDo env s1 = Ok res"
  using assms by (auto simp: describeAndFetch_def split: prod.splits option.splits)

lemma getChapter_Ok:
  assumes "getChapter s body = (Ok rec, s1)"
  shows "callLuaFunc s ''get_chapter'' [LString body] = (None, s1)
         \<and> Get_top (stack (l_state s1)) = LUserData (PtrChapter rec)"
  using assms
  by (auto simp: getChapter_def split: prod.splits option.splits lvalue.splits native.splits)

text \<open>
  C9. Whenever \<^verbatim>\<open>GetChapter\<close> succeeds on an input chapter \<open>c\<close>, the chapter it
  returns has the ID of \<open>c\<close>, whatever ID the record made by the parse phase carried;
  and the result is that record with only the ID replaced, so its source field is the one
  the script set, not the connector's name.
\<close>

theorem GetChapter_copies_input_ID:
  assumes "GetChapter env s c = (Ok ch, s')"
  shows "Chapter_ID ch = Chapter_ID c
         \<and> (\<exists>res s1 rec.
               getChapterRequest env s c = (Ok res, s1)
               \<and> entryResult s1 ''get_chapter'' [LString (Body res)]
                   = Some (LUserData (PtrChapter rec))
               \<and> ch = rec\<lparr>Chapter_ID := Chapter_ID c\<rparr>
               \<and> Chapter_Source ch = Chapter_Source rec)"
proof -
  from assms obtain res s1 where req: "getChapterRequest env s c = (Ok res, s1)"
    by (auto simp: GetChapter_def split: prod.splits outcome.splits)
  with assms obtain rec where
    parse: "getChapter s1 (Body res) = (Ok rec, s')" and
    ch: "ch = rec\<lparr>Chapter_ID := Chapter_ID c\<rparr>"
    by (auto simp: GetChapter_def split: prod.splits outcome.splits)
  from getChapter_Ok [OF parse] callLuaFunc_None
  have "entryResult s1 ''get_chapter'' [LString (Body res)] = Some (LUserData (PtrChapter rec))"
    by metis
  with req ch show ?thesis by auto
qed

text \<open>
  An input chapter with ID 42, a connector named \<^verbatim>\<open>example\<close>, and a parse phase that
  sets ID 7 and source \<^verbatim>\<open>elsewhere\<close>: the result has ID 42 and source \<^verbatim>\<open>elsewhere\<close>.
\<close>

theorem GetChapter_copies_input_ID_witness:
  "fst (GetChapter (exampleEnv (ChunkError ''unused'') ''<html>'') chapterSource
          \<lparr>Chapter_ID = 42, Chapter_Source = ''example'', Chapter_MangaID = 3\<rparr>)
     = Ok \<lparr>Chapter_ID = 42, Chapter_Source = ''elsewhere'', Chapter_MangaID = 3\<rparr>
   \<and> Chapter_ID \<lparr>Chapter_ID = 42, Chapter_Source = ''elsewhere'', Chapter_MangaID = 3\<rparr>
     = Chapter_ID \<lparr>Chapter_ID = 42, Chapter_Source = ''example'', Chapter_MangaID = 3\<rparr>"
proof -
  let ?E = "exampleEnv (ChunkError ''unused'') ''<html>''"
  let ?c = "\<lparr>Chapter_ID = 42, Chapter_Source = ''example'', Chapter_MangaID = 3\<rparr>"
  let ?ch = "\<lparr>Chapter_ID = 42, Chapter_Source = ''elsewhere'', Chapter_MangaID = 3\<rparr>"
  have out: "fst (GetChapter ?E chapterSource ?c) = Ok ?ch"
    unfolding chapterSource_def by (simp add: all_eval)
  then have run: "GetChapter ?E chapterSource ?c = (Ok ?ch, snd (GetChapter ?E chapterSource ?c))"
    by (metis prod.collapse)
  from GetChapter_copies_input_ID [OF run] have "Chapter_ID ?ch = Chapter_ID ?c" by blast
  with out show ?thesis by blast
qed

section \<open>List results\<close>

lemma length_map_filter_split:
  "length (List.map_filter f xs) + length (filter (\<lambda>x. f x = None) xs) = length xs"
  by (induction xs) (auto simp: List.map_filter_simps split: option.splits)

lemma length_map_filter_minus:
  "length (List.map_filter f xs) = length xs - length (filter (\<lambda>x. f x = None) xs)"
  using length_map_filter_split [of f xs] by arith

text \<open>
  C6. When the result of a list-returning parse call (\<^verbatim>\<open>get_latest_updates\<close>,
  \<^verbatim>\<open>get_chapters\<close>, \<^verbatim>\<open>fetch_manga\<close>) is a table, the call returns no error but
  the list of the records its entries unwrap to, in the order of the table, the entries
  that do not unwrap being skipped: of \<open>n\<close> entries with \<open>k\<close> malformed ones,
  \<open>n - k\<close> records. (\<^verbatim>\<open>getLatestUpdates\<close> and \<^verbatim>\<open>getChapters\<close> set the source
  field of each record to the connector's name; \<^verbatim>\<open>fetchManga\<close> returns the records as
  they are.)
\<close>

theorem list_parse_skips_malformed:
  "(entryResult s ''get_latest_updates'' [LString body] = Some (LTable tbl) \<longrightarrow>
      (\<exists>s1. getLatestUpdates s body =
              (Ok (map (\<lambda>m. m\<lparr>Manga_Source := Name s\<rparr>)
                     (List.map_filter (\<lambda>kv. asManga (snd kv)) (ForEach tbl))), s1))
      \<and> length (map (\<lambda>m. m\<lparr>Manga_Source := Name s\<rparr>)
                  (List.map_filter (\<lambda>kv. asManga (snd kv)) (ForEach tbl)))
          = length (ForEach tbl) - length (filter (\<lambda>kv. asManga (snd kv) = None) (ForEach tbl)))
   \<and> (entryResult s ''get_chapters'' [LString body] = Some (LTable tbl) \<longrightarrow>
      (\<exists>s1. getChapters s body =
              (Ok (map (\<lambda>c. c\<lparr>Chapter_Source := Name s\<rparr>)
                     (List.map_filter (\<lambda>kv. asChapter (snd kv)) (ForEach tbl))), s1))
      \<and> length (map (\<lambda>c. c\<lparr>Chapter_Source := Name s\<rparr>)
                  (List.map_filter (\<lambda>kv. asChapter (snd kv)) (ForEach tbl)))
          = length (ForEach tbl) - length (filter (\<lambda>kv. asChapter (snd kv) = None) (ForEach tbl)))
   \<and> (entryResult s ''fetch_manga'' [LString body] = Some (LTable tbl) \<longrightarrow>
      (\<exists>s1. fetchManga s body =
              (Ok (List.map_filter (\<lambda>kv. asManga (snd kv)) (ForEach tbl)), s1))
      \<and> length (List.map_filter (\<lambda>kv. asManga (snd kv)) (ForEach tbl))
          = length (ForEach tbl) - length (filter (\<lambda>kv. asManga (snd kv) = None) (ForEach tbl)))"
proof (intro conjI impI)
  assume r: "entryResult s ''get_latest_updates'' [LString body] = Some (LTable tbl)"
  from callLuaFunc_returns [OF r]
  show "\<exists>s1. getLatestUpdates s body =
              (Ok (map (\<lambda>m. m\<lparr>Manga_Source := Name s\<rparr>)
                     (List.map_filter (\<lambda>kv. asManga (snd kv)) (ForEach tbl))), s1)"
    by (auto simp: getLatestUpdates_def)
next
  assume r: "entryResult s ''get_chapters'' [LString body] = Some (LTable tbl)"
  from callLuaFunc_returns [OF r]
  show "\<exists>s1. getChapters s body =
              (Ok (map (\<lambda>c. c\<lparr>Chapter_Source := Name s\<rparr>)
                     (List.map_filter (\<lambda>kv. asChapter (snd kv)) (ForEach tbl))), s1)"
    by (auto simp: getChapters_def)
next
  assume r: "entryResult s ''fetch_manga'' [LString body] = Some (LTable tbl)"
  from callLuaFunc_returns [OF r]
  show "\<exists>s1. fetchManga s body =
              (Ok (List.map_filter (\<lambda>kv. asManga (snd kv)) (ForEach tbl)), s1)"
    by (auto simp: fetchManga_def)
qed (simp_all add: length_map_filter_minus)

text \<open>Five entries of which two are malformed give three records.\<close>

theorem list_parse_skips_malformed_witness:
  "entryResult listSource ''get_latest_updates'' [LString ''<html>''] = Some (LTable mixedTable)
   \<and> entryResult listSource ''get_chapters'' [LString ''<html>''] = Some (LTable mixedChapterTable)
   \<and> entryResult listSource ''fetch_manga'' [LString ''<html>''] = Some (LTable mixedTable)
   \<and> length (ForEach mixedTable) = 5
   \<and> length (filter (\<lambda>kv. asManga (snd kv) = None) (ForEach mixedTable)) = 2
   \<and> fst (getLatestUpdates listSource ''<html>'') =
        Ok [\<lparr>Manga_ID = 0, Manga_Source = ''example'', Manga_Path = ''/a''\<rparr>,
            \<lparr>Manga_ID = 0, Manga_Source = ''example'', Manga_Path = ''/b''\<rparr>,
            \<lparr>Manga_ID = 0, Manga_Source = ''example'', Manga_Path = ''/c''\<rparr>]
   \<and> fst (getChapters listSource ''<html>'') =
        Ok [\<lparr>Chapter_ID = 0, Chapter_Source = ''example'', Chapter_MangaID = 1\<rparr>,
            \<lparr>Chapter_ID = 0, Chapter_Source = ''example'', Chapter_MangaID = 2\<rparr>,
            \<lparr>Chapter_ID = 0, Chapter_Source = ''example'', Chapter_MangaID = 3\<rparr>]
   \<and> fst (fetchManga listSource ''<html>'') =
        Ok [\<lparr>Manga_ID = 0, Manga_Source = [], Manga_Path = ''/a''\<rparr>,
            \<lparr>Manga_ID = 0, Manga_Source = ''x'', Manga_Path = ''/b''\<rparr>,
            \<lparr>Manga_ID = 0, Manga_Source = [], Manga_Path = ''/c''\<rparr>]"
proof -
  have r1: "entryResult listSource ''get_latest_updates'' [LString ''<html>''] = Some (LTable mixedTable)"
    and r2: "entryResult listSource ''get_chapters'' [LString ''<html>''] = Some (LTable mixedChapterTable)"
    and r3: "entryResult listSource ''fetch_manga'' [LString ''<html>''] = Some (LTable mixedTable)"
    by (simp_all add: listSource_def engine_eval)
  have n: "length (ForEach mixedTable) = 5"
    and k: "length (filter (\<lambda>kv. asManga (snd kv) = None) (ForEach mixedTable)) = 2"
    by (simp_all add: mixedTable_def ForEach_def)
  have name: "Name listSource = ''example''"
    by (simp add: listSource_def exampleSource_def)
  have v1: "List.map_filter (\<lambda>kv. asManga (snd kv)) (ForEach mixedTable) =
      [\<lparr>Manga_ID = 0, Manga_Source = [], Manga_Path = ''/a''\<rparr>,
       \<lparr>Manga_ID = 0, Manga_Source = ''x'', Manga_Path = ''/b''\<rparr>,
       \<lparr>Manga_ID = 0, Manga_Source = [], Manga_Path = ''/c''\<rparr>]"
    by (simp add: mixedTable_def ForEach_def List.map_filter_simps)
  have v2: "List.map_filter (\<lambda>kv. asChapter (snd kv)) (ForEach mixedChapterTable) =
      [\<lparr>Chapter_ID = 0, Chapter_Source = [], Chapter_MangaID = 1\<rparr>,
       \<lparr>Chapter_ID = 0, Chapter_Source = [], Chapter_MangaID = 2\<rparr>,
       \<lparr>Chapter_ID = 0, Chapter_Source = [], Chapter_MangaID = 3\<rparr>]"
    by (simp add: mixedChapterTable_def ForEach_def List.map_filter_simps)
  from list_parse_skips_malformed [of listSource "''<html>''" mixedTable] r1 r3
  have a: "fst (getLatestUpdates listSource ''<html>'') =
             Ok (map (\<lambda>m. m\<lparr>Manga_Source := Name listSource\<rparr>)
                   (List.map_filter (\<lambda>kv. asManga (snd kv)) (ForEach mixedTable)))"
    and c: "fst (fetchManga listSource ''<html>'') =
             Ok (List.map_filter (\<lambda>kv. asManga (snd kv)) (ForEach mixedTable))"
    by auto
  from list_parse_skips_malformed [of listSource "''<html>''" mixedChapterTable] r2
  have b: "fst (getChapters listSource ''<html>'') =
             Ok (map (\<lambda>c. c\<lparr>Chapter_Source := Name listSource\<rparr>)
                   (List.map_filter (\<lambda>kv. asChapter (snd kv)) (ForEach mixedChapterTable)))"
    by auto
  show ?thesis
    using r1 r2 r3 n k a b c by (simp add: v1 v2 name)
qed

section \<open>Faults inside the script\<close>

lemma describeAndFetch_raises:
  assumes "entryFaults s name args"
  shows "returnsLuaError (describeAndFetch env s name args)"
  using callLuaFunc_raises [OF assms]
  by (auto simp: describeAndFetch_def returnsLuaError_def)

text \<open>
  C8. Every call of a script entry point goes through \<^verbatim>\<open>callLuaFunc\<close>, a protected
  call: when the entry point faults (it is no function, or it raises a runtime error),
  the fault comes back as an error value of the host function that made the call, and of
  the public operation around it, in the describe phase and in the parse phase alike;
  it is never a panic of the host.
\<close>

theorem script_fault_is_returned:
  "(entryFaults s name args \<longrightarrow>
      (\<exists>e s1. callLuaFunc s name args = (Some (LuaApiError e), s1)))
   \<and> (entryFaults s ''name'' [] \<longrightarrow> returnsLuaError (getName s))
   \<and> (entryFaults s ''base_url'' [] \<longrightarrow> returnsLuaError (getBaseURL s))
   \<and> (entryFaults s ''get_latest_updates_request'' [LNumber page] \<longrightarrow>
        returnsLuaError (getLatestUpdatesRequest env s page)
        \<and> returnsLuaError (GetLatestUpdates env s page))
   \<and> (entryFaults s ''get_latest_updates'' [LString body] \<longrightarrow>
        returnsLuaError (getLatestUpdates s body))
   \<and> (entryFaults s ''get_manga_details_request'' [LUserData (ValManga m)] \<longrightarrow>
        returnsLuaError (getMangaDetailsRequest env s m)
        \<and> returnsLuaError (GetMangaDetails env s m))
   \<and> (entryFaults s ''get_manga_details'' [LString body] \<longrightarrow>
        returnsLuaError (getMangaDetails s body))
   \<and> (entryFaults s ''get_chapters_request'' [LUserData (ValManga m)] \<longrightarrow>
        returnsLuaError (getChaptersRequest env s m)
        \<and> returnsLuaError (GetChapters env s m))
   \<and> (entryFaults s ''get_chapters'' [LString body] \<longrightarrow>
        returnsLuaError (getChapters s body))
   \<and> (entryFaults s ''get_chapter_request'' [LUserData (ValChapter c)] \<longrightarrow>
        returnsLuaError (getChapterRequest env s c)
        \<and> returnsLuaError (GetChapter env s c))
   \<and> (entryFaults s ''get_chapter'' [LString body] \<longrightarrow>
        returnsLuaError (getChapter s body))
   \<and> (entryFaults s ''login_request'' [LUserData (StringMap (loginParam u p t r))] \<longrightarrow>
        returnsLuaError (loginRequest env s u p t r)
        \<and> returnsLuaError (Login env s u p t r))
   \<and> (entryFaults s ''login'' [LUserData (HeaderMap (Header resp)), LString (Body resp)] \<longrightarrow>
        returnsLuaError (login s resp))
   \<and> (entryFaults s ''fetch_manga_request'' [LTable ft] \<longrightarrow>
        returnsLuaError (fetchMangaRequest env s ft)
        \<and> returnsLuaError (FetchManga env s ft))
   \<and> (entryFaults s ''fetch_manga'' [LString body] \<longrightarrow>
        returnsLuaError (fetchManga s body))
   \<and> (getLatestUpdatesRequest env s page = (Ok res, s1)
        \<and> entryFaults s1 ''get_latest_updates'' [LString (Body res)] \<longrightarrow>
        returnsLuaError (GetLatestUpdates env s page))
   \<and> (getMangaDetailsRequest env s m = (Ok res, s1)
        \<and> entryFaults s1 ''get_manga_details'' [LString (Body res)] \<longrightarrow>
        returnsLuaError (GetMangaDetails env s m))
   \<and> (getChaptersRequest env s m = (Ok res, s1)
        \<and> entryFaults s1 ''get_chapters'' [LString (Body res)] \<longrightarrow>
        returnsLuaError (GetChapters env s m))
   \<and> (getChapterRequest env s c = (Ok res, s1)
        \<and> entryFaults s1 ''get_chapter'' [LString (Body res)] \<longrightarrow>
        returnsLuaError (GetChapter env s c))
   \<and> (loginRequest env s u p t r = (Ok res, s1)
        \<and> entryFaults s1 ''login'' [LUserData (HeaderMap (Header res)), LString (Body res)] \<longrightarrow>
        returnsLuaError (Login env s u p t r))
   \<and> (fetchMangaRequest env s ft = (Ok res, s1)
        \<and> entryFaults s1 ''fetch_manga'' [LString (Body res)] \<longrightarrow>
        returnsLuaError (FetchManga env s ft))"
proof (intro conjI impI)
  assume "entryFaults s name args"
  then show "\<exists>e s1. callLuaFunc s name args = (Some (LuaApiError e), s1)"
    by (rule callLuaFunc_raises)
next
  assume "entryFaults s ''name'' []"
  from callLuaFunc_raises [OF this] show "returnsLuaError (getName s)"
    by (auto simp: getName_def returnsLuaError_def)
next
  assume "entryFaults s ''base_url'' []"
  from callLuaFunc_raises [OF this] show "returnsLuaError (getBaseURL s)"
    by (auto simp: getBaseURL_def returnsLuaError_def)
next
  assume a: "entryFaults s ''get_latest_updates_request'' [LNumber page]"
  then show r: "returnsLuaError (getLatestUpdatesRequest env s page)"
    by (simp add: getLatestUpdatesRequest_def describeAndFetch_raises)
  then show "returnsLuaError (GetLatestUpdates env s page)"
    by (auto simp: GetLatestUpdates_def returnsLuaError_def split: prod.splits outcome.splits)
next
  assume "entryFaults s ''get_latest_updates'' [LString body]"
  from callLuaFunc_raises [OF this] show "returnsLuaError (getLatestUpdates s body)"
    by (auto simp: getLatestUpdates_def returnsLuaError_def)
next
  assume a: "entryFaults s ''get_manga_details_request'' [LUserData (ValManga m)]"
  then show r: "returnsLuaError (getMangaDetailsRequest env s m)"
    by (simp add: getMangaDetailsRequest_def describeAndFetch_raises)
  then show "returnsLuaError (GetMangaDetails env s m)"
    by (auto simp: GetMangaDetails_def returnsLuaError_def split: prod.splits outcome.splits)
next
  assume "entryFaults s ''get_manga_details'' [LString body]"
  from callLuaFunc_raises [OF this] show "returnsLuaError (getMangaDetails s body)"
    by (auto simp: getMangaDetails_def returnsLuaError_def)
next
  assume a: "entryFaults s ''get_chapters_request'' [LUserData (ValManga m)]"
  then show r: "returnsLuaError (getChaptersRequest env s m)"
    by (simp add: getChaptersRequest_def describeAndFetch_raises)
  then show "returnsLuaError (GetChapters env s m)"
    by (auto simp: GetChapters_def returnsLuaError_def split: prod.splits outcome.splits)
next
  assume "entryFaults s ''get_chapters'' [LString body]"
  from callLuaFunc_raises [OF this] show "returnsLuaError (getChapters s body)"
    by (auto simp: getChapters_def returnsLuaError_def)
next
  assume a: "entryFaults s ''get_chapter_request'' [LUserData (ValChapter c)]"
  then show r: "returnsLuaError (getChapterRequest env s c)"
    by (simp add: getChapterRequest_def describeAndFetch_raises)
  then show "returnsLuaError (GetChapter env s c)"
    by (auto simp: GetChapter_def returnsLuaError_def split: prod.splits outcome.splits)
next
  assume "entryFaults s ''get_chapter'' [LString body]"
  from callLuaFunc_raises [OF this] show "returnsLuaError (getChapter s body)"
    by (auto simp: getChapter_def returnsLuaError_def)
next
  assume a: "entryFaults s ''login_request'' [LUserData (StringMap (loginParam u p t r))]"
  then show r: "returnsLuaError (loginRequest env s u p t r)"
    by (simp add: loginRequest_def describeAndFetch_raises)
  then show "returnsLuaError (Login env s u p t r)"
    by (auto simp: Login_def returnsLuaError_def split: prod.splits outcome.splits)
next
  assume "entryFaults s ''login'' [LUserData (HeaderMap (Header resp)), LString (Body resp)]"
  from callLuaFunc_raises [OF this] show "returnsLuaError (login s resp)"
    by (auto simp: login_def returnsLuaError_def)
next
  assume a: "entryFaults s ''fetch_manga_request'' [LTable ft]"
  then show r: "returnsLuaError (fetchMangaRequest env s ft)"
    by (simp add: fetchMangaRequest_def describeAndFetch_raises)
  then show "returnsLuaError (FetchManga env s ft)"
    by (auto simp: FetchManga_def returnsLuaError_def split: prod.splits outcome.splits)
next
  assume "entryFaults s ''fetch_manga'' [LString body]"
  from callLuaFunc_raises [OF this] show "returnsLuaError (fetchManga s body)"
    by (auto simp: fetchManga_def returnsLuaError_def)
next
  assume "getLatestUpdatesRequest env s page = (Ok res, s1)
          \<and> entryFaults s1 ''get_latest_updates'' [LString (Body res)]"
  then show "returnsLuaError (GetLatestUpdates env s page)"
    using callLuaFunc_raises [of s1 "''get_latest_updates''" "[LString (Body res)]"]
    by (auto simp: GetLatestUpdates_def getLatestUpdates_def returnsLuaError_def)
next
  assume "getMangaDetailsRequest env s m = (Ok res, s1)
          \<and> entryFaults s1 ''get_manga_details'' [LString (Body res)]"
  then show "returnsLuaError (GetMangaDetails env s m)"
    using callLuaFunc_raises [of s1 "''get_manga_details''" "[LString (Body res)]"]
    by (auto simp: GetMangaDetails_def getMangaDetails_def returnsLuaError_def)
next
  assume "getChaptersRequest env s m = (Ok res, s1)
          \<and> entryFaults s1 ''get_chapters'' [LString (Body res)]"
  then show "returnsLuaError (GetChapters env s m)"
    using callLuaFunc_raises [of s1 "''get_chapters''" "[LString (Body res)]"]
    by (auto simp: GetChapters_def getChapters_def returnsLuaError_def)
next
  assume "getChapterRequest env s c = (Ok res, s1)
          \<and> entryFaults s1 ''get_chapter'' [LString (Body res)]"
  then show "returnsLuaError (GetChapter env s c)"
    using callLuaFunc_raises [of s1 "''get_chapter''" "[LString (Body res)]"]
    by (auto simp: GetChapter_def getChapter_def returnsLuaError_def)
next
  assume "loginRequest env s u p t r = (Ok res, s1)
          \<and> entryFaults s1 ''login'' [LUserData (HeaderMap (Header res)), LString (Body res)]"
  then show "returnsLuaError (Login env s u p t r)"
    using callLuaFunc_raises
      [of s1 "''login''" "[LUserData (HeaderMap (Header res)), LString (Body res)]"]
    by (auto simp: Login_def login_def returnsLuaError_def)
next
  assume "fetchMangaRequest env s ft = (Ok res, s1)
          \<and> entryFaults s1 ''fetch_manga'' [LString (Body res)]"
  then show "returnsLuaError (FetchManga env s ft)"
    using callLuaFunc_raises [of s1 "''fetch_manga''" "[LString (Body res)]"]
    by (auto simp: FetchManga_def fetchManga_def returnsLuaError_def)
qed

text \<open>
  A script all of whose functions raise \<^verbatim>\<open>attempt to index a nil value\<close>, and a script
  whose describe functions return a descriptor and whose parse functions raise.
\<close>

theorem script_fault_is_returned_witness:
  "entryFaults faultingSource ''get_chapter'' [LString ''<html>'']
   \<and> (\<exists>e s1. callLuaFunc faultingSource ''get_chapter'' [LString ''<html>'']
                 = (Some (LuaApiError e), s1))
   \<and> returnsLuaError (getName faultingSource)
   \<and> returnsLuaError (getBaseURL faultingSource)
   \<and> returnsLuaError (GetLatestUpdates (exampleEnv (ChunkError ''unused'') ''<html>'') faultingSource 1)
   \<and> returnsLuaError (getLatestUpdates faultingSource ''<html>'')
   \<and> returnsLuaError (GetMangaDetails (exampleEnv (ChunkError ''unused'') ''<html>'') faultingSource exManga)
   \<and> returnsLuaError (getMangaDetails faultingSource ''<html>'')
   \<and> returnsLuaError (GetChapters (exampleEnv (ChunkError ''unused'') ''<html>'') faultingSource exManga)
   \<and> returnsLuaError (getChapters faultingSource ''<html>'')
   \<and> returnsLuaError (GetChapter (exampleEnv (ChunkError ''unused'') ''<html>'') faultingSource exChapter)
   \<and> returnsLuaError (getChapter faultingSource ''<html>'')
   \<and> returnsLuaError (Login (exampleEnv (ChunkError ''unused'') ''<html>'') faultingSource
                           ''user'' ''secret'' ''000000'' True)
   \<and> returnsLuaError (login faultingSource exResponse)
   \<and> returnsLuaError (FetchManga (exampleEnv (ChunkError ''unused'') ''<html>'') faultingSource [])
   \<and> returnsLuaError (fetchManga faultingSource ''<html>'')
   \<and> fst (getChapterRequest (exampleEnv (ChunkError ''unused'') ''<html>'') parseFaultSource exChapter)
        = Ok exResponse
   \<and> entryFaults
        (snd (getChapterRequest (exampleEnv (ChunkError ''unused'') ''<html>'') parseFaultSource exChapter))
        ''get_chapter'' [LString (Body exResponse)]
   \<and> returnsLuaError (GetLatestUpdates (exampleEnv (ChunkError ''unused'') ''<html>'') parseFaultSource 1)
   \<and> returnsLuaError (GetMangaDetails (exampleEnv (ChunkError ''unused'') ''<html>'') parseFaultSource exManga)
   \<and> returnsLuaError (GetChapters (exampleEnv (ChunkError ''unused'') ''<html>'') parseFaultSource exManga)
   \<and> returnsLuaError (GetChapter (exampleEnv (ChunkError ''unused'') ''<html>'') parseFaultSource exChapter)
   \<and> returnsLuaError (Login (exampleEnv (ChunkError ''unused'') ''<html>'') parseFaultSource
                           ''user'' ''secret'' ''000000'' True)
   \<and> returnsLuaError (FetchManga (exampleEnv (ChunkError ''unused'') ''<html>'') parseFaultSource [])"
proof -
  let ?E = "exampleEnv (ChunkError ''unused'') ''<html>''"
  have f: "entryFaults faultingSource n a" for n a
    by (simp add: faultingSource_def entryFaults_def entryResult_def)
  note first = script_fault_is_returned
    [where s = faultingSource and name = "''get_chapter''" and args = "[LString ''<html>'']"
       and env = ?E and page = 1 and body = "''<html>''" and m = exManga and c = exChapter
       and u = "''user''" and p = "''secret''" and t = "''000000''" and r = True
       and resp = exResponse and ft = "[]"]
  have o1: "fst (getLatestUpdatesRequest ?E parseFaultSource 1) = Ok exResponse"
    and o2: "fst (getMangaDetailsRequest ?E parseFaultSource exManga) = Ok exResponse"
    and o3: "fst (getChaptersRequest ?E parseFaultSource exManga) = Ok exResponse"
    and o4: "fst (getChapterRequest ?E parseFaultSource exChapter) = Ok exResponse"
    and o5: "fst (loginRequest ?E parseFaultSource ''user'' ''secret'' ''000000'' True) = Ok exResponse"
    and o6: "fst (fetchMangaRequest ?E parseFaultSource []) = Ok exResponse"
    by (simp_all add: parseFaultSource_def requestNames_def exResponse_def all_eval)
  have g: "entryFaults (snd (describeAndFetch ?E parseFaultSource n a)) n' a'"
    if "n' \<notin> set requestNames" for n a n' a'
    using that
    by (auto simp: parseFaultSource_def describeAndFetch_def callLuaFunc_def entryFaults_def
          entryResult_def split: prod.splits global.splits call_result.splits if_splits)
  have names: "''get_latest_updates'' \<notin> set requestNames"
    "''get_manga_details'' \<notin> set requestNames"
    "''get_chapters'' \<notin> set requestNames"
    "''get_chapter'' \<notin> set requestNames"
    "''login'' \<notin> set requestNames"
    "''fetch_manga'' \<notin> set requestNames"
    by (simp_all add: requestNames_def)
  have p1: "returnsLuaError (GetLatestUpdates ?E parseFaultSource 1)"
    using script_fault_is_returned
      [where s = parseFaultSource and env = ?E and page = 1 and res = exResponse
         and ?s1.0 = "snd (getLatestUpdatesRequest ?E parseFaultSource 1)"]
      o1 g [OF names(1)]
    by (simp add: getLatestUpdatesRequest_def prod_eq_iff)
  have p2: "returnsLuaError (GetMangaDetails ?E parseFaultSource exManga)"
    using script_fault_is_returned
      [where s = parseFaultSource and env = ?E and m = exManga and res = exResponse
         and ?s1.0 = "snd (getMangaDetailsRequest ?E parseFaultSource exManga)"]
      o2 g [OF names(2)]
    by (simp add: getMangaDetailsRequest_def prod_eq_iff)
  have p3: "returnsLuaError (GetChapters ?E parseFaultSource exManga)"
    using script_fault_is_returned
      [where s = parseFaultSource and env = ?E and m = exManga and res = exResponse
         and ?s1.0 = "snd (getChaptersRequest ?E parseFaultSource exManga)"]
      o3 g [OF names(3)]
    by (simp add: getChaptersRequest_def prod_eq_iff)
  have h4: "entryFaults (snd (getChapterRequest ?E parseFaultSource exChapter))
              ''get_chapter'' [LString (Body exResponse)]"
    using g [OF names(4)] by (simp add: getChapterRequest_def)
  have p4: "returnsLuaError (GetChapter ?E parseFaultSource exChapter)"
    using script_fault_is_returned
      [where s = parseFaultSource and env = ?E and c = exChapter and res = exResponse
         and ?s1.0 = "snd (getChapterRequest ?E parseFaultSource exChapter)"]
      o4 h4
    by (simp add: prod_eq_iff)
  have p5: "returnsLuaError (Login ?E parseFaultSource ''user'' ''secret'' ''000000'' True)"
    using script_fault_is_returned
      [where s = parseFaultSource and env = ?E and u = "''user''" and p = "''secret''"
         and t = "''000000''" and r = True and res = exResponse
         and ?s1.0 = "snd (loginRequest ?E parseFaultSource ''user'' ''secret'' ''000000'' True)"]
      o5 g [OF names(5)]
    by (simp add: loginRequest_def prod_eq_iff)
  have p6: "returnsLuaError (FetchManga ?E parseFaultSource [])"
    using script_fault_is_returned
      [where s = parseFaultSource and env = ?E and ft = "[]" and res = exResponse
         and ?s1.0 = "snd (fetchMangaRequest ?E parseFaultSource [])"]
      o6 g [OF names(6)]
    by (simp add: fetchMangaRequest_def prod_eq_iff)
  from first f o4 h4 p1 p2 p3 p4 p5 p6 show ?thesis
    by simp
qed

section \<open>Loading\<close>

lemmas load_eval = CheckString_1_def Pop_1_def getName_def getBaseURL_def newSource_def
  loadedSource_def LoadSourceFromPath_def

lemma getName_Ok:
  assumes "getName s = (Ok u, s1)"
  shows "\<exists>v. entryResult s ''name'' [] = Some v
           \<and> CheckString_1 (stack (l_state s) @ [v]) = Some (Name s1)
           \<and> stack (l_state s1) = stack (l_state s) \<and> header s1 = header s"
  using assms
  by (auto simp: getName_def callLuaFunc_def entryResult_def Pop_1_def
           split: global.splits call_result.splits option.splits)

lemma getBaseURL_Ok:
  assumes "getBaseURL s = (Ok u, s1)"
  shows "\<exists>v. entryResult s ''base_url'' [] = Some v
           \<and> CheckString_1 (stack (l_state s) @ [v]) = Some (URL s1)
           \<and> Name s1 = Name s \<and> header s1 = header s"
  using assms
  by (auto simp: getBaseURL_def callLuaFunc_def entryResult_def Pop_1_def
           split: global.splits call_result.splits option.splits)

lemma getName_raises:
  assumes "entryFaults s ''name'' []"
  shows "\<exists>e s1. getName s = (Err (LuaApiError e), s1)"
  using callLuaFunc_raises [OF assms] by (auto simp: getName_def)

lemma getBaseURL_raises:
  assumes "entryFaults s ''base_url'' []"
  shows "\<exists>e s1. getBaseURL s = (Err (LuaApiError e), s1)"
  using callLuaFunc_raises [OF assms] by (auto simp: getBaseURL_def)

text \<open>
  C4, amended. \<^verbatim>\<open>LoadSourceFromPath\<close> returns an error and no connector when the file
  fails to run, and when the \<^verbatim>\<open>name\<close> or the \<^verbatim>\<open>base_url\<close> entry point is absent or
  faults; in the latter two cases the interpreter has been closed. When it returns a
  connector, both entry points have returned, the interpreter is open, the session headers
  are empty, and the name and the base URL are what \<^verbatim>\<open>CheckString(1)\<close> reads after
  each call: for a file whose top level returns nothing, the value the entry point
  returned, a string as it is (the empty string too) and a number as its text.
\<close>

theorem LoadSourceFromPath_result:
  "(DoFile env path = ChunkError e \<longrightarrow>
      LoadSourceFromPath env path = (Err (LuaApiError e), False))
   \<and> (DoFile env path = ChunkRuns rets g m
        \<and> entryFaults (loadedSource rets g m) ''name'' [] \<longrightarrow>
        (\<exists>e'. LoadSourceFromPath env path = (Err (LuaApiError e'), True)))
   \<and> (DoFile env path = ChunkRuns rets g m
        \<and> getName (loadedSource rets g m) = (Ok (), s1)
        \<and> entryFaults s1 ''base_url'' [] \<longrightarrow>
        (\<exists>e'. LoadSourceFromPath env path = (Err (LuaApiError e'), True)))
   \<and> (LoadSourceFromPath env path = (Ok s, closed) \<longrightarrow>
        (\<exists>rets' g' m' s1' v1 v2.
            DoFile env path = ChunkRuns rets' g' m'
            \<and> entryResult (loadedSource rets' g' m') ''name'' [] = Some v1
            \<and> getName (loadedSource rets' g' m') = (Ok (), s1')
            \<and> entryResult s1' ''base_url'' [] = Some v2
            \<and> CheckString_1 (rets' @ [v1]) = Some (Name s)
            \<and> CheckString_1 (rets' @ [v2]) = Some (URL s)
            \<and> header s = Some Map.empty
            \<and> \<not> closed))"
proof (intro conjI impI)
  assume "DoFile env path = ChunkError e"
  then show "LoadSourceFromPath env path = (Err (LuaApiError e), False)"
    by (simp add: LoadSourceFromPath_def)
next
  assume a: "DoFile env path = ChunkRuns rets g m
             \<and> entryFaults (loadedSource rets g m) ''name'' []"
  with getName_raises [of "loadedSource rets g m"]
  show "\<exists>e'. LoadSourceFromPath env path = (Err (LuaApiError e'), True)"
    by (auto simp: LoadSourceFromPath_def loadedSource_def)
next
  assume a: "DoFile env path = ChunkRuns rets g m
             \<and> getName (loadedSource rets g m) = (Ok (), s1)
             \<and> entryFaults s1 ''base_url'' []"
  with getBaseURL_raises [of s1]
  show "\<exists>e'. LoadSourceFromPath env path = (Err (LuaApiError e'), True)"
    by (auto simp: LoadSourceFromPath_def loadedSource_def)
next
  assume ok: "LoadSourceFromPath env path = (Ok s, closed)"
  then obtain rets' g' m' where ch: "DoFile env path = ChunkRuns rets' g' m'"
    by (auto simp: LoadSourceFromPath_def split: chunk.splits)
  let ?s0 = "loadedSource rets' g' m'"
  from ok ch obtain s1' where n: "getName ?s0 = (Ok (), s1')"
    by (auto simp: LoadSourceFromPath_def loadedSource_def Let_def
             split: prod.splits outcome.splits)
  with ok ch have b: "getBaseURL s1' = (Ok (), s)" and cl: "\<not> closed"
    by (auto simp: LoadSourceFromPath_def loadedSource_def Let_def
             split: prod.splits outcome.splits)
  have st0: "stack (l_state ?s0) = rets'" and h0: "header ?s0 = Some Map.empty"
    by (simp_all add: loadedSource_def newSource_def)
  from getName_Ok [OF n] st0 h0 obtain v1 where
    v1: "entryResult ?s0 ''name'' [] = Some v1"
        "CheckString_1 (rets' @ [v1]) = Some (Name s1')"
        "stack (l_state s1') = rets'" "header s1' = Some Map.empty"
    by auto
  from getBaseURL_Ok [OF b] v1 obtain v2 where
    v2: "entryResult s1' ''base_url'' [] = Some v2"
        "CheckString_1 (rets' @ [v2]) = Some (URL s)"
        "Name s = Name s1'" "header s = Some Map.empty"
    by auto
  from ch n v1 v2 cl
  show "\<exists>rets' g' m' s1' v1 v2.
            DoFile env path = ChunkRuns rets' g' m'
            \<and> entryResult (loadedSource rets' g' m') ''name'' [] = Some v1
            \<and> getName (loadedSource rets' g' m') = (Ok (), s1')
            \<and> entryResult s1' ''base_url'' [] = Some v2
            \<and> CheckString_1 (rets' @ [v1]) = Some (Name s)
            \<and> CheckString_1 (rets' @ [v2]) = Some (URL s)
            \<and> header s = Some Map.empty
            \<and> \<not> closed"
    by auto
qed

text \<open>
  A file that cannot be opened, a script without \<^verbatim>\<open>name\<close>, a script without
  \<^verbatim>\<open>base_url\<close>, and a script with both.
\<close>

theorem LoadSourceFromPath_result_witness:
  "LoadSourceFromPath (exampleEnv (ChunkError ''cannot open connector.lua'') ''<html>'') ''connector.lua''
     = (Err (LuaApiError ''cannot open connector.lua''), False)
   \<and> (\<exists>e'. LoadSourceFromPath (exampleEnv noNameChunk ''<html>'') ''connector.lua''
                = (Err (LuaApiError e'), True))
   \<and> (\<exists>e'. LoadSourceFromPath (exampleEnv noBaseURLChunk ''<html>'') ''connector.lua''
                = (Err (LuaApiError e'), True))
   \<and> LoadSourceFromPath (exampleEnv goodChunk ''<html>'') ''connector.lua'' = (Ok goodLoaded, False)
   \<and> header goodLoaded = Some Map.empty
   \<and> CheckString_1 [LString ''example''] = Some (Name goodLoaded)
   \<and> CheckString_1 [LString ''http://example.com''] = Some (URL goodLoaded)"
proof -
  let ?p = "''connector.lua''"
  let ?g2 = "constGlobals [(''base_url'', LString ''http://example.com'')]"
  let ?g3 = "constGlobals [(''name'', LString ''example'')]"
  have c1: "LoadSourceFromPath (exampleEnv (ChunkError ''cannot open connector.lua'') ''<html>'') ?p
              = (Err (LuaApiError ''cannot open connector.lua''), False)"
    using LoadSourceFromPath_result
      [where env = "exampleEnv (ChunkError ''cannot open connector.lua'') ''<html>''"
         and path = ?p and e = "''cannot open connector.lua''"]
    by (simp add: exampleEnv_def)
  have c2: "\<exists>e'. LoadSourceFromPath (exampleEnv noNameChunk ''<html>'') ?p
                  = (Err (LuaApiError e'), True)"
    using LoadSourceFromPath_result
      [where env = "exampleEnv noNameChunk ''<html>''" and path = ?p
         and rets = "[]" and g = ?g2 and m = "()"]
    by (simp add: exampleEnv_def noNameChunk_def engine_eval load_eval)
  have n3: "getName (loadedSource [] ?g3 ()) = (Ok (), snd (getName (loadedSource [] ?g3 ())))"
    by (simp add: engine_eval load_eval)
  have f3: "entryFaults (snd (getName (loadedSource [] ?g3 ()))) ''base_url'' []"
    by (simp add: engine_eval load_eval)
  have c3: "\<exists>e'. LoadSourceFromPath (exampleEnv noBaseURLChunk ''<html>'') ?p
                  = (Err (LuaApiError e'), True)"
    using LoadSourceFromPath_result
      [where env = "exampleEnv noBaseURLChunk ''<html>''" and path = ?p
         and rets = "[]" and g = ?g3 and m = "()"
         and ?s1.0 = "snd (getName (loadedSource [] ?g3 ()))"] n3 f3
    by (simp add: exampleEnv_def noBaseURLChunk_def)
  have c4: "LoadSourceFromPath (exampleEnv goodChunk ''<html>'') ?p = (Ok goodLoaded, False)"
    by (simp add: goodChunk_def goodLoaded_def engine_eval load_eval)
  from LoadSourceFromPath_result
      [where env = "exampleEnv goodChunk ''<html>''" and path = ?p and s = goodLoaded
         and closed = False] c4
  have c5: "header goodLoaded = Some Map.empty"
    by blast
  have c6: "CheckString_1 [LString ''example''] = Some (Name goodLoaded)
            \<and> CheckString_1 [LString ''http://example.com''] = Some (URL goodLoaded)"
    by (simp add: goodLoaded_def CheckString_1_def Get_first_def)
  from c1 c2 c3 c4 c5 c6 show ?thesis by blast
qed

text \<open>
  C4, as stated: \<^verbatim>\<open>Load\<close> never returns a connector whose name or base URL is
  empty. It does: nothing in \<^verbatim>\<open>getName\<close> or \<^verbatim>\<open>getBaseURL\<close> looks at the length of
  the string, so a script whose \<^verbatim>\<open>name\<close> function returns the empty string loads into
  a connector with an empty name.
\<close>

theorem Load_empty_name_counterexample:
  "map_outcome Name (fst (LoadSourceFromPath (exampleEnv emptyNameChunk ''<html>'') ''connector.lua''))
     = Ok []
   \<and> map_outcome URL (fst (LoadSourceFromPath (exampleEnv emptyNameChunk ''<html>'') ''connector.lua''))
     = Ok ''http://example.com''"
  by (simp add: emptyNameChunk_def engine_eval load_eval)

text \<open>
  Outside the amended statement: a \<^verbatim>\<open>name\<close> function that returns a table makes
  \<^verbatim>\<open>CheckString\<close> raise outside any protected call.
\<close>

lemma getName_table_panics:
  "fst (getName (loadedSource [] (constGlobals [(''name'', LTable [])]) ()))
     = Panic ''bad argument #1 (string expected)''"
  by (simp add: engine_eval load_eval)

section \<open>Outbound headers\<close>

lemma canon_User_Agent: "CanonicalMIMEHeaderKey ''User-Agent'' = ''User-Agent''"
  by (simp add: char_eval CanonicalMIMEHeaderKey_def Let_def)

lemma canon_Content_Type: "CanonicalMIMEHeaderKey ''Content-Type'' = ''Content-Type''"
  by (simp add: char_eval CanonicalMIMEHeaderKey_def Let_def)


lemma Header_Set_lookup:
  "Header_Set h key v N = (if N = CanonicalMIMEHeaderKey key then Some [v] else h N)"
  by (simp add: Header_Set_def)

lemma fold_Header_Set:
  "fold (\<lambda>kv hm. Header_Set hm (lv_String (fst kv)) (lv_String (snd kv))) es h N =
     (case lastSet N es of Some v \<Rightarrow> Some [lv_String v] | None \<Rightarrow> h N)"
proof -
  define step where
    "step = (\<lambda>kv hm. Header_Set hm (lv_String (fst kv)) (lv_String (snd kv)))"
  have one: "step (k, v) h N =
      (if N = CanonicalMIMEHeaderKey (lv_String k) then Some [lv_String v] else h N)"
    for k v h N
    by (simp add: step_def Header_Set_def)
  have "fold step es h N =
     (case lastSet N es of Some v \<Rightarrow> Some [lv_String v] | None \<Rightarrow> h N)"
  proof (induction es arbitrary: h)
    case Nil
    show ?case by simp
  next
    case (Cons e es)
    obtain k v where e: "e = (k, v)" by (cases e)
    have "fold step (e # es) h N = fold step es (step (k, v) h) N"
      by (simp add: e)
    also have "\<dots> = (case lastSet N es of
                        Some w \<Rightarrow> Some [lv_String w]
                      | None \<Rightarrow> step (k, v) h N)"
      by (rule Cons.IH)
    also have "\<dots> = (case lastSet N (e # es) of
                        Some w \<Rightarrow> Some [lv_String w]
                      | None \<Rightarrow> h N)"
      by (auto simp: e one split: option.splits)
    finally show ?case .
  qed
  then show ?thesis by (simp add: step_def)
qed

lemma headerBuilder_lookup:
  "headerBuilder s N = (if N = ''User-Agent'' then Some [''Tanoshi/0.1.0''] else sessionHeaders s N)"
  by (simp add: headerBuilder_def sessionHeaders_def Header_Set_lookup canon_User_Agent)

lemma mergedHeaders_lookup:
  "mergedHeaders s req N =
     (case lastSet N (descriptorHeaders req) of
        Some v \<Rightarrow> Some [lv_String v]
      | None \<Rightarrow> if N = ''User-Agent'' then Some [''Tanoshi/0.1.0''] else sessionHeaders s N)"
  by (simp add: mergedHeaders_def fold_Header_Set headerBuilder_lookup split: option.splits)

text \<open>\<^verbatim>\<open>createRequest\<close> on a descriptor table, in terms of the names above.\<close>

lemma createRequest_table:
  assumes "Get_top (stack (l_state s)) = LTable req"
  shows "createRequest env s =
     (case http_NewRequest env (lv_String (RawGetString req ''method''))
             (lv_String (RawGetString req ''url''))
             (if encodesMultipart s req
              then MultipartForm (randomBoundary env)
                     (case RawGetString req ''data'' of LTable data \<Rightarrow> writeFields data | _ \<Rightarrow> [])
              else EmptyBody) of
        Inl e \<Rightarrow> Err e
      | Inr request \<Rightarrow>
          Ok (request\<lparr>req_Header :=
                (if encodesMultipart s req
                 then Header_Set (mergedHeaders s req) ''Content-Type''
                        (FormDataContentType (randomBoundary env))
                 else mergedHeaders s req)\<rparr>))"
proof -
  have m: "(case RawGetString req ''header'' of
              LTable headers \<Rightarrow> setHeaders headers (headerBuilder s)
            | _ \<Rightarrow> headerBuilder s) = mergedHeaders s req"
    by (simp add: mergedHeaders_def descriptorHeaders_def setHeaders_def split: lvalue.splits)
  show ?thesis
    unfolding createRequest_def assms
    by (cases "RawGetString req ''data''")
       (simp_all add: m Let_def encodesMultipart_def split: sum.splits)
qed


lemma request_header_lookup:
  assumes "Get_top (stack (l_state s)) = LTable req"
    and "createRequest env s = Ok r"
  shows "req_Header r N =
           (if N = ''Content-Type'' \<and> encodesMultipart s req
            then Some [FormDataContentType (randomBoundary env)]
            else (case lastSet N (descriptorHeaders req) of
                    Some v \<Rightarrow> Some [lv_String v]
                  | None \<Rightarrow>
                      if N = ''User-Agent'' then Some [''Tanoshi/0.1.0'']
                      else sessionHeaders s N))"
proof -
  from assms(2) have h: "req_Header r =
      (if encodesMultipart s req
       then Header_Set (mergedHeaders s req) ''Content-Type''
              (FormDataContentType (randomBoundary env))
       else mergedHeaders s req)"
    by (auto simp: createRequest_table [OF assms(1)] split: sum.splits)
  show ?thesis
    by (simp add: h Header_Set_lookup canon_Content_Type mergedHeaders_lookup)
qed

lemmas example_eval = afterDescribe_def precedenceDescriptor_def precedenceSource_def
  sessionAgentSource_def multipartDescriptor_def multipartSource_def
  twoSpellingsDescriptor_def twoSpellingsSource_def noMethodSource_def notTableSource_def
  overrideDescriptor_def overrideSource_def noUrlSource_def
  sessionHeaders_def descriptorHeaders_def mergedHeaders_def encodesMultipart_def Let_def

text \<open>
  C2, as stated: when the descriptor sets no \<^verbatim>\<open>User-Agent\<close> and the session headers
  hold one, the outbound \<^verbatim>\<open>User-Agent\<close> is the session's. It is not:
  \<^verbatim>\<open>headerBuilder\<close> clones the session headers and then sets \<^verbatim>\<open>User-Agent\<close> to
  \<^verbatim>\<open>Tanoshi/0.1.0\<close>, so the engine's value replaces the session's.
\<close>

theorem session_agent_counterexample:
  "Header_Get (sessionHeaders (afterDescribe sessionAgentSource)) ''User-Agent'' = ''Mozilla/5.0''
   \<and> lastSet ''User-Agent''
        (descriptorHeaders [(LString ''method'', LString ''GET''),
                            (LString ''url'', LString ''http://example.com/latest'')]) = None
   \<and> map_outcome (\<lambda>r. Header_Get (req_Header r) ''User-Agent'')
        (createRequest (exampleEnv (ChunkError ''unused'') ''<html>'')
           (afterDescribe sessionAgentSource))
       = Ok ''Tanoshi/0.1.0''"
  by (simp add: example_eval all_eval)

text \<open>
  C2, amended. The header set of the request that \<^verbatim>\<open>createRequest\<close> builds is, name by
  name (in canonical form), highest precedence first: for \<^verbatim>\<open>Content-Type\<close>, the value
  of the multipart writer when the body is encoded as multipart; the value of the last
  entry of the descriptor's \<^verbatim>\<open>header\<close> table visited under that name; for
  \<^verbatim>\<open>User-Agent\<close>, the engine's \<^verbatim>\<open>Tanoshi/0.1.0\<close>; the value list of the session
  headers. In particular a request whose descriptor sets no \<^verbatim>\<open>User-Agent\<close> goes out
  with \<^verbatim>\<open>Tanoshi/0.1.0\<close>, whatever the session holds.
\<close>

theorem outbound_header_precedence:
  assumes "Get_top (stack (l_state s)) = LTable req"
    and "createRequest env s = Ok r"
  shows "req_Header r N =
           (if N = ''Content-Type'' \<and> encodesMultipart s req
            then Some [FormDataContentType (randomBoundary env)]
            else (case lastSet N (descriptorHeaders req) of
                    Some v \<Rightarrow> Some [lv_String v]
                  | None \<Rightarrow>
                      if N = ''User-Agent'' then Some [''Tanoshi/0.1.0'']
                      else sessionHeaders s N))
         \<and> (lastSet ''User-Agent'' (descriptorHeaders req) = None \<longrightarrow>
              Header_Get (req_Header r) ''User-Agent'' = ''Tanoshi/0.1.0'')"
proof -
  note g = request_header_lookup [OF assms]
  have "Header_Get (req_Header r) ''User-Agent'' = ''Tanoshi/0.1.0''"
    if "lastSet ''User-Agent'' (descriptorHeaders req) = None"
    using that by (simp add: Header_Get_def canon_User_Agent g)
  with g show ?thesis by simp
qed

text \<open>
  A session with \<^verbatim>\<open>User-Agent\<close>, \<^verbatim>\<open>Accept\<close> and \<^verbatim>\<open>Cookie\<close>, and a descriptor
  that sets \<^verbatim>\<open>accept\<close>: the descriptor's \<^verbatim>\<open>Accept\<close>, the engine's
  \<^verbatim>\<open>User-Agent\<close>, the session's \<^verbatim>\<open>Cookie\<close>.
\<close>

theorem outbound_header_precedence_witness:
  "Get_top (stack (l_state (afterDescribe precedenceSource))) = LTable precedenceDescriptor
   \<and> map_outcome (\<lambda>r. (req_Header r ''Accept'', req_Header r ''User-Agent'', req_Header r ''Cookie''))
        (createRequest (exampleEnv (ChunkError ''unused'') ''<html>'') (afterDescribe precedenceSource))
       = Ok (Some [''application/json''], Some [''Tanoshi/0.1.0''], Some [''sid=1''])"
proof -
  let ?E = "exampleEnv (ChunkError ''unused'') ''<html>''"
  let ?s = "afterDescribe precedenceSource"
  have top: "Get_top (stack (l_state ?s)) = LTable precedenceDescriptor"
    by (simp add: example_eval engine_eval)
  have "\<exists>r. createRequest ?E ?s = Ok r"
    by (simp add: example_eval all_eval)
  then obtain r where r: "createRequest ?E ?s = Ok r" ..
  have l: "lastSet ''Accept'' (descriptorHeaders precedenceDescriptor) = Some (LString ''application/json'')"
      "lastSet ''User-Agent'' (descriptorHeaders precedenceDescriptor) = None"
      "lastSet ''Cookie'' (descriptorHeaders precedenceDescriptor) = None"
    by (simp_all add: example_eval char_eval ForEach_def CanonicalMIMEHeaderKey_def)
  have ss: "sessionHeaders ?s ''Cookie'' = Some [''sid=1'']"
    by (simp add: example_eval engine_eval)
  from outbound_header_precedence [OF top r, of "''Accept''"]
       outbound_header_precedence [OF top r, of "''User-Agent''"]
       outbound_header_precedence [OF top r, of "''Cookie''"] l ss
  have "req_Header r ''Accept'' = Some [''application/json'']"
       "req_Header r ''User-Agent'' = Some [''Tanoshi/0.1.0'']"
       "req_Header r ''Cookie'' = Some [''sid=1'']"
    by simp_all
  with top r show ?thesis by simp
qed

lemma lastSet_same_value:
  assumes "(k, v) \<in> set es"
    and "\<forall>kv\<in>set es. CanonicalMIMEHeaderKey (lv_String (fst kv)) = CanonicalMIMEHeaderKey (lv_String k)
            \<longrightarrow> lv_String (snd kv) = lv_String v"
  shows "\<exists>w. lastSet (CanonicalMIMEHeaderKey (lv_String k)) es = Some w
              \<and> lv_String w = lv_String v"
  using assms
proof (induction es)
  case Nil
  then show ?case by simp
next
  case (Cons e es)
  obtain k' v' where e: "e = (k', v')" by (cases e)
  show ?case
  proof (cases "(k, v) \<in> set es")
    case True
    with Cons obtain w where
      "lastSet (CanonicalMIMEHeaderKey (lv_String k)) es = Some w \<and> lv_String w = lv_String v"
      by auto
    then show ?thesis by (simp add: e)
  next
    case False
    with Cons.prems(1) have "e = (k, v)" by simp
    with e have kv: "k' = k" "v' = v" by simp_all
    show ?thesis
    proof (cases "lastSet (CanonicalMIMEHeaderKey (lv_String k)) es")
      case None
      then show ?thesis by (simp add: e kv)
    next
      case (Some w)
      have "\<exists>k''. (k'', w) \<in> set es
                  \<and> CanonicalMIMEHeaderKey (lv_String k'') = CanonicalMIMEHeaderKey (lv_String k)"
        using Some
      proof (induction es)
        case Nil
        then show ?case by simp
      next
        case (Cons a as)
        obtain ka va where a: "a = (ka, va)" by (cases a)
        from Cons show ?case
          by (auto simp: a split: option.splits if_splits)
      qed
      with Cons.prems(2) have "lv_String w = lv_String v" by fastforce
      with Some show ?thesis by (simp add: e)
    qed
  qed
qed

text \<open>
  C5, as stated: for every entry of the descriptor's \<^verbatim>\<open>header\<close> table the outbound
  header of that name is the entry's value. Two things stand against it. A descriptor that
  sets \<^verbatim>\<open>Content-Type\<close> to \<^verbatim>\<open>multipart/form-data\<close> and carries a \<^verbatim>\<open>data\<close> table
  has its \<^verbatim>\<open>Content-Type\<close> replaced by the writer's, which carries the boundary. And
  two entries whose names differ only in case are one header, which the entry visited last
  decides.
\<close>

theorem descriptor_header_counterexample:
  "RawGetString multipartDescriptor ''header''
     = LTable [(LString ''Content-Type'', LString ''multipart/form-data'')]
   \<and> map_outcome (\<lambda>r. Header_Get (req_Header r) ''Content-Type'')
        (createRequest (exampleEnv (ChunkError ''unused'') ''<html>'') (afterDescribe multipartSource))
       = Ok ''multipart/form-data; boundary=6b1f0c2d9e3a4b5c6d7e8f901a2b3c4d5e6f708192a3b4c5d6e7f8091a2b''
   \<and> RawGetString twoSpellingsDescriptor ''header''
     = LTable [(LString ''accept'', LString ''text/html''),
               (LString ''Accept'', LString ''application/json'')]
   \<and> map_outcome (\<lambda>r. Header_Get (req_Header r) ''accept'')
        (createRequest (exampleEnv (ChunkError ''unused'') ''<html>'') (afterDescribe twoSpellingsSource))
       = Ok ''application/json''"
  by (simp add: example_eval all_eval)

text \<open>
  C5, amended. For an entry \<open>(k, v)\<close> of the descriptor's \<^verbatim>\<open>header\<close> table such that
  every entry whose name has the canonical form of \<open>k\<close> carries the same value, and
  unless the name is \<^verbatim>\<open>Content-Type\<close> and the body is encoded as multipart, the
  outbound header of that name is exactly \<open>v\<close> (as text), whatever the session headers
  and the engine default hold under that name.
\<close>

theorem descriptor_header_wins:
  assumes "Get_top (stack (l_state s)) = LTable req"
    and "RawGetString req ''header'' = LTable headers"
    and "(k, v) \<in> set (ForEach headers)"
    and "\<forall>kv\<in>set (ForEach headers).
            CanonicalMIMEHeaderKey (lv_String (fst kv)) = CanonicalMIMEHeaderKey (lv_String k)
            \<longrightarrow> lv_String (snd kv) = lv_String v"
    and "\<not> (CanonicalMIMEHeaderKey (lv_String k) = ''Content-Type'' \<and> encodesMultipart s req)"
    and "createRequest env s = Ok r"
  shows "req_Header r (CanonicalMIMEHeaderKey (lv_String k)) = Some [lv_String v]
         \<and> Header_Get (req_Header r) (lv_String k) = lv_String v"
proof -
  have d: "descriptorHeaders req = ForEach headers"
    by (simp add: descriptorHeaders_def assms(2))
  from lastSet_same_value [OF assms(3) assms(4)] d obtain w where
    w: "lastSet (CanonicalMIMEHeaderKey (lv_String k)) (descriptorHeaders req) = Some w"
       "lv_String w = lv_String v"
    by auto
  from request_header_lookup [OF assms(1) assms(6), of "CanonicalMIMEHeaderKey (lv_String k)"]
       assms(5) w
  have "req_Header r (CanonicalMIMEHeaderKey (lv_String k)) = Some [lv_String v]"
    by auto
  then show ?thesis by (simp add: Header_Get_def)
qed


text \<open>
  A descriptor that sets \<^verbatim>\<open>user-agent\<close> and \<^verbatim>\<open>accept\<close> over a session that holds
  both.
\<close>

theorem descriptor_header_wins_witness:
  "Header_Get (sessionHeaders (afterDescribe overrideSource)) ''User-Agent'' = ''Mozilla/5.0''
   \<and> Header_Get (sessionHeaders (afterDescribe overrideSource)) ''Accept'' = ''text/html''
   \<and> map_outcome (\<lambda>r. (Header_Get (req_Header r) ''user-agent'', Header_Get (req_Header r) ''accept''))
        (createRequest (exampleEnv (ChunkError ''unused'') ''<html>'') (afterDescribe overrideSource))
       = Ok (''Custom/1.0'', ''application/json'')"
proof -
  let ?E = "exampleEnv (ChunkError ''unused'') ''<html>''"
  let ?s = "afterDescribe overrideSource"
  let ?hs = "[(LString ''user-agent'', LString ''Custom/1.0''),
              (LString ''accept'', LString ''application/json'')]"
  have top: "Get_top (stack (l_state ?s)) = LTable overrideDescriptor"
    by (simp add: example_eval engine_eval)
  have hs: "RawGetString overrideDescriptor ''header'' = LTable ?hs"
    by (simp add: overrideDescriptor_def)
  have "\<exists>r. createRequest ?E ?s = Ok r"
    by (simp add: example_eval all_eval)
  then obtain r where r: "createRequest ?E ?s = Ok r" ..
  have c: "CanonicalMIMEHeaderKey ''user-agent'' = ''User-Agent''"
      "CanonicalMIMEHeaderKey ''accept'' = ''Accept''"
    by (simp_all add: char_eval CanonicalMIMEHeaderKey_def Let_def)
  have a: "Header_Get (req_Header r) (lv_String (LString ''user-agent'')) = lv_String (LString ''Custom/1.0'')"
    using descriptor_header_wins [OF top hs _ _ _ r, of "LString ''user-agent''" "LString ''Custom/1.0''"]
    by (simp add: ForEach_def c)
  have b: "Header_Get (req_Header r) (lv_String (LString ''accept'')) = lv_String (LString ''application/json'')"
    using descriptor_header_wins [OF top hs _ _ _ r, of "LString ''accept''" "LString ''application/json''"]
    by (simp add: ForEach_def c)
  have ss: "Header_Get (sessionHeaders ?s) ''User-Agent'' = ''Mozilla/5.0''"
      "Header_Get (sessionHeaders ?s) ''Accept'' = ''text/html''"
    by (simp_all add: example_eval engine_eval header_eval char_eval)
  from a b ss r show ?thesis by simp
qed

section \<open>Descriptors without method or URL\<close>









section \<open>Session headers after Login\<close>

lemma sessionAddAll_Some:
  "sessionAddAll (Some h) key ws =
     Ok (Some (fold (\<lambda>w hm. Header_Add hm key (lv_String w)) ws h))"
  by (induction ws arbitrary: h) simp_all

lemma fold_Header_Add:
  "fold (\<lambda>w hm. Header_Add hm key (lv_String w)) ws h N =
     (if N = CanonicalMIMEHeaderKey key \<and> ws \<noteq> []
      then Some ((case h N of None \<Rightarrow> [] | Some vs \<Rightarrow> vs) @ map lv_String ws)
      else h N)"
proof -
  define step where "step = (\<lambda>w hm. Header_Add hm key (lv_String w))"
  have one: "step w h N =
      (if N = CanonicalMIMEHeaderKey key
       then Some ((case h N of None \<Rightarrow> [] | Some vs \<Rightarrow> vs) @ [lv_String w])
       else h N)" for w h N
    by (simp add: step_def Header_Add_def)
  have "fold step ws h N =
     (if N = CanonicalMIMEHeaderKey key \<and> ws \<noteq> []
      then Some ((case h N of None \<Rightarrow> [] | Some vs \<Rightarrow> vs) @ map lv_String ws)
      else h N)"
  proof (induction ws arbitrary: h)
    case Nil
    show ?case by simp
  next
    case (Cons w ws)
    have "fold step (w # ws) h N = fold step ws (step w h) N" by simp
    also have "\<dots> =
       (if N = CanonicalMIMEHeaderKey key \<and> ws \<noteq> []
        then Some ((case step w h N of None \<Rightarrow> [] | Some vs \<Rightarrow> vs) @ map lv_String ws)
        else step w h N)"
      by (rule Cons.IH)
    also have "\<dots> =
       (if N = CanonicalMIMEHeaderKey key \<and> w # ws \<noteq> []
        then Some ((case h N of None \<Rightarrow> [] | Some vs \<Rightarrow> vs) @ map lv_String (w # ws))
        else h N)"
      by (simp add: one)
    finally show ?case .
  qed
  then show ?thesis by (simp add: step_def)
qed

text \<open>One entry of a \<^verbatim>\<open>login\<close> result with a table value: delete, then add each value.\<close>

lemma replace_lookup:
  "fold (\<lambda>w hm. Header_Add hm key (lv_String w)) ws (Header_Del h key) N =
     (if N = CanonicalMIMEHeaderKey key
      then (if ws = [] then None else Some (map lv_String ws))
      else h N)"
  by (simp add: fold_Header_Add Header_Del_def)

lemma loginEntries_Some:
  "\<exists>h'. loginEntries (Some h) es = Ok (Some h')
        \<and> (\<forall>N. h' N = (case lastList N es of
                         Some strs \<Rightarrow> if strs = [] then None else Some strs
                       | None \<Rightarrow> h N))"
proof (induction es arbitrary: h)
  case Nil
  show ?case by simp
next
  case (Cons e es)
  obtain k v where e: "e = (k, v)" by (cases e)
  show ?case
  proof (cases "isTable v")
    case False
    then have skip: "loginEntries (Some h) (e # es) = loginEntries (Some h) es"
      and same: "lastList N (e # es) = lastList N es" for N
      by (cases v; simp add: e split: option.splits)+
    from Cons.IH [of h] show ?thesis by (simp add: skip same)
  next
    case True
    then obtain "values" where v: "v = LTable values" by (cases v) simp_all
    let ?ws = "map snd (ForEach values)"
    let ?h1 = "fold (\<lambda>w hm. Header_Add hm (lv_String k) (lv_String w)) ?ws
                 (Header_Del h (lv_String k))"
    have step: "loginEntries (Some h) (e # es) = loginEntries (Some ?h1) es"
      by (simp add: e v sessionDel_def sessionAddAll_Some)
    from Cons.IH [of ?h1] obtain h' where
      h': "loginEntries (Some ?h1) es = Ok (Some h')"
          "\<And>N. h' N = (case lastList N es of
                         Some strs \<Rightarrow> if strs = [] then None else Some strs
                       | None \<Rightarrow> ?h1 N)"
      by blast
    have strs: "map lv_String ?ws = map (\<lambda>iw. lv_String (snd iw)) (ForEach values)"
      by (simp add: comp_def)
    have "h' N = (case lastList N (e # es) of
                    Some strs \<Rightarrow> if strs = [] then None else Some strs
                  | None \<Rightarrow> h N)" for N
      by (auto simp: h'(2) e v replace_lookup strs split: option.splits)
    with step h'(1) show ?thesis by auto
  qed
qed

lemma lastList_mentioned:
  assumes "lastList N es = Some strs"
  shows "\<exists>k values. (k, LTable values) \<in> set es
            \<and> CanonicalMIMEHeaderKey (lv_String k) = N
            \<and> strs = map (\<lambda>iw. lv_String (snd iw)) (ForEach values)"
  using assms
proof (induction es)
  case Nil
  then show ?case by simp
next
  case (Cons e es)
  obtain k v where e: "e = (k, v)" by (cases e)
  from Cons show ?case
    by (cases v) (auto simp: e split: option.splits if_splits)
qed

lemma lastList_present:
  assumes "(k, LTable values) \<in> set es"
  shows "\<exists>strs. lastList (CanonicalMIMEHeaderKey (lv_String k)) es = Some strs"
  using assms
proof (induction es)
  case Nil
  then show ?case by simp
next
  case (Cons e es)
  obtain k' v' where e: "e = (k', v')" by (cases e)
  from Cons show ?case
    by (cases v') (auto simp: e split: option.splits)
qed

lemma lastList_None:
  assumes "N \<notin> set (map (\<lambda>kv. CanonicalMIMEHeaderKey (lv_String (fst kv)))
                       (filter (\<lambda>kv. isTable (snd kv)) es))"
  shows "lastList N es = None"
proof (cases "lastList N es")
  case None
  then show ?thesis .
next
  case (Some strs)
  from lastList_mentioned [OF Some] obtain k "values" where
    "(k, LTable values) \<in> set es" "CanonicalMIMEHeaderKey (lv_String k) = N"
    by blast
  then have "N \<in> (\<lambda>kv. CanonicalMIMEHeaderKey (lv_String (fst kv)))
                 ` {kv \<in> set es. isTable (snd kv)}"
    by force
  with assms show ?thesis by simp
qed

lemmas login_eval = loginResult_def loginSource_def twoSpellingsLogin_def
  twoSpellingsLoginRev_def exResponse_def sessionHeaders_def mentionedNames_def Let_def

text \<open>
  C1, as stated: after \<^verbatim>\<open>login\<close>, the session's value list for every key \<open>K\<close> of
  the result that comes with a list is exactly that list. \<^verbatim>\<open>http.Header\<close> knows a name
  only in its canonical form, so two keys of the result that differ in case,
  \<^verbatim>\<open>cookie\<close> and \<^verbatim>\<open>Cookie\<close>, are one header: whichever entry \<^verbatim>\<open>ForEach\<close> visits
  last decides the list, and the other key's list is not the one the script gave for it.
  Both orders are evaluated; nothing is ever stored under the spelling \<^verbatim>\<open>cookie\<close>.
\<close>

theorem login_two_spellings_counterexample:
  "fst (login twoSpellingsLogin exResponse) = Ok ()
   \<and> Header_Values (sessionHeaders (snd (login twoSpellingsLogin exResponse))) ''cookie'' = [''b'']
   \<and> sessionHeaders (snd (login twoSpellingsLogin exResponse)) ''cookie'' = None
   \<and> fst (login twoSpellingsLoginRev exResponse) = Ok ()
   \<and> Header_Values (sessionHeaders (snd (login twoSpellingsLoginRev exResponse))) ''Cookie'' = [''a'']"
  by (simp add: login_eval all_eval)

text \<open>
  C1, amended. Names are taken in canonical form. When the result of the \<^verbatim>\<open>login\<close>
  entry point is a table, \<^verbatim>\<open>login\<close> succeeds, and afterwards: for every entry of the
  result whose value is a list, provided no other list-valued entry has a name of the same
  canonical form with another value, the session's value list under that name is exactly
  the list the script returned, each value as text (replacement, not append); and every
  name that is not the canonical form of the name of a list-valued entry keeps the value
  list it had.
\<close>

theorem login_replaces_mentioned_keys:
  assumes "entryResult s ''login'' [LUserData (HeaderMap (Header resp)), LString (Body resp)]
             = Some (LTable tbl)"
    and "header s = Some h"
  shows "\<exists>s' h'. login s resp = (Ok (), s') \<and> header s' = Some h'
           \<and> (\<forall>k values.
                 (k, LTable values) \<in> set (ForEach tbl)
                 \<and> (\<forall>kv\<in>set (ForEach tbl).
                        isTable (snd kv)
                        \<and> CanonicalMIMEHeaderKey (lv_String (fst kv))
                            = CanonicalMIMEHeaderKey (lv_String k)
                        \<longrightarrow> snd kv = LTable values)
                 \<longrightarrow> Header_Values h' (lv_String k)
                       = map (\<lambda>iw. lv_String (snd iw)) (ForEach values))
           \<and> (\<forall>N. N \<notin> mentionedNames tbl \<longrightarrow> h' N = h N)"
proof -
  from callLuaFunc_returns [OF assms(1)] obtain s1 where
    s1: "callLuaFunc s ''login'' [LUserData (HeaderMap (Header resp)), LString (Body resp)]
           = (None, s1)"
        "Get_top (stack (l_state s1)) = LTable tbl" "header s1 = header s"
    by blast
  from loginEntries_Some [of h "ForEach tbl"] obtain h' where
    h': "loginEntries (Some h) (ForEach tbl) = Ok (Some h')"
        "\<And>N. h' N = (case lastList N (ForEach tbl) of
                       Some strs \<Rightarrow> if strs = [] then None else Some strs
                     | None \<Rightarrow> h N)"
    by blast
  have run: "login s resp = (Ok (), s1\<lparr>header := Some h'\<rparr>)"
    by (simp add: login_def s1 assms(2) h'(1))
  have repl: "Header_Values h' (lv_String k) = map (\<lambda>iw. lv_String (snd iw)) (ForEach values)"
    if mem: "(k, LTable values) \<in> set (ForEach tbl)"
      and uniq: "\<forall>kv\<in>set (ForEach tbl).
                   isTable (snd kv)
                   \<and> CanonicalMIMEHeaderKey (lv_String (fst kv))
                       = CanonicalMIMEHeaderKey (lv_String k)
                   \<longrightarrow> snd kv = LTable values"
    for k "values"
  proof -
    from lastList_present [OF mem] obtain strs where
      l: "lastList (CanonicalMIMEHeaderKey (lv_String k)) (ForEach tbl) = Some strs"
      by blast
    from lastList_mentioned [OF l] obtain k' values' where
      m: "(k', LTable values') \<in> set (ForEach tbl)"
         "CanonicalMIMEHeaderKey (lv_String k') = CanonicalMIMEHeaderKey (lv_String k)"
         "strs = map (\<lambda>iw. lv_String (snd iw)) (ForEach values')"
      by blast
    from uniq m(1) m(2) have "LTable values' = LTable values" by fastforce
    with m(3) l show ?thesis
      by (simp add: Header_Values_def h'(2))
  qed
  have keep: "h' N = h N" if "N \<notin> mentionedNames tbl" for N
    using that lastList_None [of N "ForEach tbl"]
    by (simp add: h'(2) mentionedNames_def)
  from run repl keep show ?thesis by auto
qed


text \<open>
  A session holding \<^verbatim>\<open>Cookie\<close>, \<^verbatim>\<open>Accept\<close> and \<^verbatim>\<open>X-Token\<close>; the script
  returns two values for \<^verbatim>\<open>cookie\<close>, one for \<^verbatim>\<open>X-Token\<close>, and a string under
  \<^verbatim>\<open>note\<close>.
\<close>

theorem login_replaces_mentioned_keys_witness:
  "entryResult loginSource ''login'' [LUserData (HeaderMap (Header exResponse)), LString (Body exResponse)]
     = Some (LTable loginResult)
   \<and> fst (login loginSource exResponse) = Ok ()
   \<and> Header_Values (sessionHeaders loginSource) ''cookie'' = [''sid=1'']
   \<and> Header_Values (sessionHeaders (snd (login loginSource exResponse))) ''cookie''
       = [''sid=2'', ''theme=dark'']
   \<and> Header_Values (sessionHeaders (snd (login loginSource exResponse))) ''X-Token'' = [''t1'']
   \<and> ''Accept'' \<notin> mentionedNames loginResult
   \<and> sessionHeaders (snd (login loginSource exResponse)) ''Accept'' = Some [''text/html'']"
proof -
  let ?h = "[''Cookie'' \<mapsto> [''sid=1''], ''Accept'' \<mapsto> [''text/html''], ''X-Token'' \<mapsto> [''t0'']]"
  let ?c = "[(LNumber 1, LString ''sid=2''), (LNumber 2, LString ''theme=dark'')]"
  let ?x = "[(LNumber 1, LString ''t1'')]"
  have r: "entryResult loginSource ''login''
             [LUserData (HeaderMap (Header exResponse)), LString (Body exResponse)]
           = Some (LTable loginResult)"
    by (simp add: login_eval engine_eval)
  have h: "header loginSource = Some ?h"
    by (simp add: loginSource_def exampleSource_def)
  from login_replaces_mentioned_keys [OF r h] obtain s' h' where
    run: "login loginSource exResponse = (Ok (), s')" and hs: "header s' = Some h'"
    and repl: "\<And>k values.
                 (k, LTable values) \<in> set (ForEach loginResult) \<Longrightarrow>
                 (\<forall>kv\<in>set (ForEach loginResult).
                        isTable (snd kv)
                        \<and> CanonicalMIMEHeaderKey (lv_String (fst kv))
                            = CanonicalMIMEHeaderKey (lv_String k)
                        \<longrightarrow> snd kv = LTable values) \<Longrightarrow>
                 Header_Values h' (lv_String k) = map (\<lambda>iw. lv_String (snd iw)) (ForEach values)"
    and keep: "\<And>N. N \<notin> mentionedNames loginResult \<Longrightarrow> h' N = ?h N"
    by blast
  have canon: "CanonicalMIMEHeaderKey ''cookie'' = ''Cookie''"
      "CanonicalMIMEHeaderKey ''X-Token'' = ''X-Token''"
      "CanonicalMIMEHeaderKey ''note'' = ''Note''"
    by (simp_all add: char_eval CanonicalMIMEHeaderKey_def Let_def)
  have fe: "ForEach loginResult = loginResult"
    by (simp add: loginResult_def ForEach_def)
  have m1: "(LString ''cookie'', LTable ?c) \<in> set (ForEach loginResult)"
    and m2: "(LString ''X-Token'', LTable ?x) \<in> set (ForEach loginResult)"
    unfolding fe by (simp_all add: loginResult_def)
  have u1: "\<forall>kv\<in>set (ForEach loginResult).
              isTable (snd kv)
              \<and> CanonicalMIMEHeaderKey (lv_String (fst kv))
                  = CanonicalMIMEHeaderKey (lv_String (LString ''cookie''))
              \<longrightarrow> snd kv = LTable ?c"
    and u2: "\<forall>kv\<in>set (ForEach loginResult).
              isTable (snd kv)
              \<and> CanonicalMIMEHeaderKey (lv_String (fst kv))
                  = CanonicalMIMEHeaderKey (lv_String (LString ''X-Token''))
              \<longrightarrow> snd kv = LTable ?x"
    unfolding fe by (simp_all add: loginResult_def canon)
  from repl [OF m1 u1] have a: "Header_Values h' ''cookie'' = [''sid=2'', ''theme=dark'']"
    by (simp add: ForEach_def)
  from repl [OF m2 u2] have b: "Header_Values h' ''X-Token'' = [''t1'']"
    by (simp add: ForEach_def)
  have nm: "''Accept'' \<notin> mentionedNames loginResult"
    unfolding mentionedNames_def fe by (simp add: loginResult_def canon)
  from keep [OF nm] have c: "h' ''Accept'' = Some [''text/html'']" by simp
  have before: "Header_Values (sessionHeaders loginSource) ''cookie'' = [''sid=1'']"
    by (simp add: sessionHeaders_def h Header_Values_def canon)
  from run hs have after: "sessionHeaders (snd (login loginSource exResponse)) = h'"
    by (simp add: sessionHeaders_def)
  from r run a b c nm before after show ?thesis by simp
qed

end
